theory Spec2Isabelle
  imports Main "HOL-Library.Sublist"
begin

section \<open>CalDAV scheduling delivery: \<^verbatim>\<open>twistedcaldav/scheduling/caldav.py\<close>\<close>

subsection \<open>Python string operations used by the address classifier\<close>

text \<open>\<^verbatim>\<open>s.startswith(p)\<close> and \<^verbatim>\<open>s.endswith(p)\<close>.\<close>

definition startswith :: "string \<Rightarrow> string \<Rightarrow> bool" where
  "startswith s p = prefix p s"

definition endswith :: "string \<Rightarrow> string \<Rightarrow> bool" where
  "endswith s p = suffix p s"

text \<open>
  \<^verbatim>\<open>s.split(sep)\<close> for a separator of one character, the only kind the source uses
  (\<^verbatim>\<open>":"\<close> and \<^verbatim>\<open>"?"\<close>). The result is never empty: \<^verbatim>\<open>"".split(":")\<close> is
  the list of one empty string.
\<close>

fun split_chr :: "char \<Rightarrow> string \<Rightarrow> string list" where
  "split_chr c [] = [] # []"
| "split_chr c (x # xs) =
     (if x = c then [] # split_chr c xs
      else (case split_chr c xs of
              [] \<Rightarrow> [x] # []
            | y # ys \<Rightarrow> (x # y) # ys))"

subsection \<open>Configuration: \<^verbatim>\<open>config.Scheduling["CalDAV"]\<close>\<close>

text \<open>
  The keys of \<^verbatim>\<open>stdconfig.py\<close> that the classifier reads. A regular expression of
  \<^verbatim>\<open>AddressPatterns\<close> is represented by the predicate
  \<^verbatim>\<open>re.match(pattern, cuaddr) is not None\<close>.
\<close>

record caldav_config =
  EmailDomain :: string
  HTTPDomain :: string
  AddressPatterns :: "(string \<Rightarrow> bool) list"

text \<open>
  Modelled from the spec: \<^verbatim>\<open>DeliveryService.matchCalendarUserAddress\<close> (the superclass
  method, in \<^verbatim>\<open>scheduling/delivery.py\<close>, which is not among the sources). The spec calls it
  the fallback pattern-matching contract shared by all delivery mechanisms: the address
  matches when one of the configured address patterns matches it.
\<close>

definition DeliveryService_matchCalendarUserAddress :: "caldav_config \<Rightarrow> string \<Rightarrow> bool" where
  "DeliveryService_matchCalendarUserAddress cfg cuaddr =
     list_ex (\<lambda>pattern. pattern cuaddr) (AddressPatterns cfg)"

text \<open>
  \<^verbatim>\<open>ScheduleViaCalDAV.matchCalendarUserAddress\<close>, lines 70 to 90. A configured domain is
  truthy when it is not the empty string. The three tests form one
  \<^verbatim>\<open>if\<close>/\<^verbatim>\<open>elif\<close> chain: a \<^verbatim>\<open>mailto:\<close> address whose domain does not
  match goes straight to the default match.
\<close>

definition matchCalendarUserAddress :: "caldav_config \<Rightarrow> string \<Rightarrow> bool" where
  "matchCalendarUserAddress cfg cuaddr =
     (if startswith cuaddr ''mailto:'' \<and> EmailDomain cfg \<noteq> [] then
        (let splits = split_chr (CHR ''?'') (drop 7 cuaddr);
             domain = EmailDomain cfg
         in if endswith (hd splits) domain then True
            else DeliveryService_matchCalendarUserAddress cfg cuaddr)
      else if (startswith cuaddr ''http://'' \<or> startswith cuaddr ''https://'')
              \<and> HTTPDomain cfg \<noteq> [] then
        (let splits = split_chr (CHR ''?'') (drop 2 (hd (split_chr (CHR '':'') cuaddr)));
             domain = HTTPDomain cfg
         in if endswith (hd splits) domain then True
            else DeliveryService_matchCalendarUserAddress cfg cuaddr)
      else if startswith cuaddr ''/'' then True
      else DeliveryService_matchCalendarUserAddress cfg cuaddr)"

subsection \<open>Data model of the delivery engine\<close>

text \<open>
  The collaborators of \<^verbatim>\<open>ScheduleViaCalDAV\<close> (the resource store behind the request,
  the implicit processor, the free-busy collector, the iTIP processor, the reactor) are not
  among the sources. Their objects are handles, and what they do is a parameter of the model
  (the record \<open>env\<close> below).
\<close>

datatype resource = Resource (fp_path: string)

datatype principal = Principal (principalURL: string)

record recipient =
  cuaddr :: string
  principal :: principal
  inbox :: resource
  inboxURL :: string

text \<open>\<^verbatim>\<open>scheduling/cuaddress.py\<close>: the two classes of calendar user the source tests for.\<close>

datatype calendar_user =
    LocalCalendarUser string principal
  | RemoteCalendarUser string

fun cu_cuaddr :: "calendar_user \<Rightarrow> string" where
  "cu_cuaddr (LocalCalendarUser a p) = a"
| "cu_cuaddr (RemoteCalendarUser a) = a"

fun isRemoteCalendarUser :: "calendar_user \<Rightarrow> bool" where
  "isRemoteCalendarUser (RemoteCalendarUser a) = True"
| "isRemoteCalendarUser (LocalCalendarUser a p) = False"

type_synonym period = "int \<times> int"

text \<open>First list is BUSY, second BUSY-TENTATIVE, third BUSY-UNAVAILABLE.\<close>

type_synonym fbinfo = "period list \<times> period list \<times> period list"

text \<open>The scheduler the engine reads; \<open>'c\<close> is the type of iCalendar objects.\<close>

record 'c scheduler =
  calendar :: 'c
  organizer :: calendar_user
  originator :: calendar_user
  timeRange :: period
  excludeUID :: "string option"

text \<open>
  The fields of \<^verbatim>\<open>self\<close>. The fourth, \<^verbatim>\<open>self.responses\<close>, is an object shared with the
  caller and mutated in place, so it lives in the state.
\<close>

record 'c ScheduleViaCalDAV =
  scheduler :: "'c scheduler"
  recipients :: "recipient list"
  freebusy :: bool

text \<open>
  What is handed to \<^verbatim>\<open>responses.add\<close>: a status code, or a \<^verbatim>\<open>Failure\<close> wrapping
  \<^verbatim>\<open>HTTPError(ErrorResponse(code, (namespace, name)))\<close>.
\<close>

datatype http_error = ErrorResponse nat "string \<times> string"

datatype what = Code nat | Failure http_error

definition responsecode_OK :: nat where "responsecode_OK = 200"
definition responsecode_FORBIDDEN :: nat where "responsecode_FORBIDDEN = 403"
definition responsecode_NOT_FOUND :: nat where "responsecode_NOT_FOUND = 404"

definition caldav_namespace :: string where
  "caldav_namespace = ''urn:ietf:params:xml:ns:caldav''"

record 'c response_entry =
  re_recipient :: string
  re_what :: what
  re_reqstatus :: string
  re_calendar :: "'c option"

text \<open>The three dead properties written on a stored inbox item.\<close>

datatype dead_property =
    Originator string
  | Recipient string
  | ScheduleState bool

text \<open>
  \<^verbatim>\<open>reactor.callLater(0.0, itip.handleRequest, request, principal, inbox, calendar, child)\<close>:
  a call queued on the reactor (every delay in the source is \<^verbatim>\<open>0.0\<close>).
\<close>

datatype 'c delayed_call = HandleRequest principal resource 'c "resource option"

datatype exn =
    AccessDeniedError
  | ImplicitProcessorException string
  | AttributeError
  | OtherError string

text \<open>
  The calls made on the store and on the processors. The source keeps no such log; the state
  below records them in the order they are made, so that which calls a path makes, and which
  it does not make, can be stated.
\<close>

datatype event =
    Call_checkPrivileges resource string
  | Call_locateResource string
  | Call_doImplicitProcessing recipient
  | Call_StoreCalendarObjectResource "resource option" string resource
  | Call_writeDeadProperty resource dead_property
  | Call_calendarFreeBusyURIs principal
  | Call_hasProperty resource
  | Call_readProperty resource
  | Call_generateFreeBusyInfo resource

text \<open>
  The state: the world behind the request (\<open>'w\<close>, whatever the collaborators keep), the
  response queue, the reactor's queue of delayed calls and the log of calls.
\<close>

record ('w, 'c) sys =
  world :: 'w
  responses :: "'c response_entry list"
  reactor :: "'c delayed_call list"
  calls :: "event list"

text \<open>
  The collaborators. An operation on the store or of a processor (what the source calls with
  the request, or on a resource) takes the world and returns an exception or a value, with
  the new world. The methods that compute on calendar data (\<^verbatim>\<open>getAttendeeProperty\<close>,
  \<^verbatim>\<open>processAvailabilityFreeBusy\<close>, \<^verbatim>\<open>buildFreeBusyResult\<close>) return an exception or a
  value. The accessors (\<^verbatim>\<open>getOrganizerProperty\<close>, \<^verbatim>\<open>resourceUID\<close>, \<^verbatim>\<open>str\<close>,
  \<^verbatim>\<open>duplicate\<close>, \<^verbatim>\<open>canAutoRespond\<close>, \<^verbatim>\<open>autoSchedule\<close>,
  \<^verbatim>\<open>calendarUserAddresses\<close>, \<^verbatim>\<open>exists\<close>, \<^verbatim>\<open>isCalendarCollectionResource\<close>) and
  the library functions (\<^verbatim>\<open>md5\<close>, \<^verbatim>\<open>joinURL\<close>) are total; \<^verbatim>\<open>time_str\<close> is
  \<^verbatim>\<open>str(time.time())\<close>, read from the world. \<^verbatim>\<open>locateResource\<close> may return
  \<^verbatim>\<open>None\<close>. The arguments that every call of the source passes unchanged (the request,
  the privilege, the name of the availability property, the flags of the store) are left out.
\<close>

record ('w, 'c) env =
  getOrganizerProperty :: "'c \<Rightarrow> string option"
  resourceUID :: "'c \<Rightarrow> string"
  calendar_str :: "'c \<Rightarrow> string"
  duplicate :: "'c \<Rightarrow> 'c"
  getAttendeeProperty :: "'c \<Rightarrow> string list \<Rightarrow> exn + string option"
  canAutoRespond :: "'c \<Rightarrow> bool"
  autoSchedule :: "principal \<Rightarrow> bool"
  calendarUserAddresses :: "principal \<Rightarrow> string list"
  calendarFreeBusyURIs :: "principal \<Rightarrow> 'w \<Rightarrow> (exn + string list) \<times> 'w"
  checkPrivileges :: "resource \<Rightarrow> string \<Rightarrow> 'w \<Rightarrow> (exn + unit) \<times> 'w"
  locateResource :: "string \<Rightarrow> 'w \<Rightarrow> (exn + resource option) \<times> 'w"
  resource_exists :: "resource \<Rightarrow> bool"
  isCalendarCollectionResource :: "resource \<Rightarrow> bool"
  hasProperty :: "resource \<Rightarrow> 'w \<Rightarrow> (exn + bool) \<times> 'w"
  readProperty :: "resource \<Rightarrow> 'w \<Rightarrow> (exn + 'c) \<times> 'w"
  writeDeadProperty :: "resource \<Rightarrow> dead_property \<Rightarrow> 'w \<Rightarrow> (exn + unit) \<times> 'w"
  doImplicitProcessing ::
    "'c \<Rightarrow> calendar_user \<Rightarrow> recipient \<Rightarrow> 'w \<Rightarrow> (exn + bool \<times> bool) \<times> 'w"
  StoreCalendarObjectResource ::
    "resource option \<Rightarrow> string \<Rightarrow> resource \<Rightarrow> 'c \<Rightarrow> 'w \<Rightarrow> (exn + unit) \<times> 'w"
  processAvailabilityFreeBusy :: "'c \<Rightarrow> fbinfo \<Rightarrow> period \<Rightarrow> exn + fbinfo"
  generateFreeBusyInfo ::
    "resource \<Rightarrow> fbinfo \<Rightarrow> period \<Rightarrow> int \<Rightarrow> string option \<Rightarrow> string \<Rightarrow> bool \<Rightarrow> bool
      \<Rightarrow> 'w \<Rightarrow> (exn + fbinfo \<times> int) \<times> 'w"
  buildFreeBusyResult ::
    "fbinfo \<Rightarrow> period \<Rightarrow> string option \<Rightarrow> string option \<Rightarrow> string \<Rightarrow> string \<Rightarrow> exn + 'c"
  md5_hexdigest :: "string \<Rightarrow> string"
  time_str :: "'w \<Rightarrow> string"
  joinURL :: "string \<Rightarrow> string \<Rightarrow> string"

subsection \<open>Control flow: results, exceptions, \<^verbatim>\<open>try\<close>\<close>

type_synonym ('w, 'c, 'a) m = "('w, 'c) sys \<Rightarrow> (exn + 'a) \<times> ('w, 'c) sys"

definition unit_m :: "'a \<Rightarrow> ('w, 'c, 'a) m" where
  "unit_m x = (\<lambda>s. (Inr x, s))"

definition raise_m :: "exn \<Rightarrow> ('w, 'c, 'a) m" where
  "raise_m e = (\<lambda>s. (Inl e, s))"

text \<open>Sequencing: an exception of the first part ends the whole, the state is kept.\<close>

definition bind_m :: "('w, 'c, 'a) m \<Rightarrow> ('a \<Rightarrow> ('w, 'c, 'b) m) \<Rightarrow> ('w, 'c, 'b) m" where
  "bind_m f g = (\<lambda>s. case f s of (Inl e, s') \<Rightarrow> (Inl e, s') | (Inr x, s') \<Rightarrow> g x s')"

text \<open>
  \<^verbatim>\<open>try: f  except: handler  else: cont\<close>. The handler sees the exception (and raises it
  again when its \<^verbatim>\<open>except\<close> clause names another class); an exception raised by the
  handler or by the \<^verbatim>\<open>else\<close> part is not caught.
\<close>

definition try_m ::
  "('w, 'c, 'a) m \<Rightarrow> (exn \<Rightarrow> ('w, 'c, 'b) m) \<Rightarrow> ('a \<Rightarrow> ('w, 'c, 'b) m) \<Rightarrow> ('w, 'c, 'b) m" where
  "try_m f handler cont =
     (\<lambda>s. case f s of (Inl e, s') \<Rightarrow> handler e s' | (Inr x, s') \<Rightarrow> cont x s')"

text \<open>A call of a collaborator on the world; it is logged whether it raises or not.\<close>

definition call :: "event \<Rightarrow> ('w \<Rightarrow> (exn + 'a) \<times> 'w) \<Rightarrow> ('w, 'c, 'a) m" where
  "call ev f =
     (\<lambda>s. case f (world s) of (r, w') \<Rightarrow> (r, s\<lparr>world := w', calls := calls s @ [ev]\<rparr>))"

definition lift :: "exn + 'a \<Rightarrow> ('w, 'c, 'a) m" where
  "lift r = (\<lambda>s. (r, s))"

definition read_world :: "('w \<Rightarrow> 'a) \<Rightarrow> ('w, 'c, 'a) m" where
  "read_world f = (\<lambda>s. (Inr (f (world s)), s))"

text \<open>
  Modelled from the spec: \<^verbatim>\<open>responses.add(recipient, what, reqstatus, calendar)\<close> of the
  caller's response queue (\<^verbatim>\<open>ScheduleResponseQueue\<close>, not among the sources). The spec's
  ResponseSet is an ordered, append-only collection; \<open>add\<close> appends one entry.
\<close>

definition responses_add ::
  "string \<Rightarrow> what \<Rightarrow> string \<Rightarrow> 'c option \<Rightarrow> ('w, 'c, unit) m" where
  "responses_add r w rs c =
     (\<lambda>s. (Inr (), s\<lparr>responses := responses s @
        [\<lparr>re_recipient = r, re_what = w, re_reqstatus = rs, re_calendar = c\<rparr>]\<rparr>))"

definition callLater :: "'c delayed_call \<Rightarrow> ('w, 'c, unit) m" where
  "callLater dc = (\<lambda>s. (Inr (), s\<lparr>reactor := reactor s @ [dc]\<rparr>))"

text \<open>A method call on what may be \<^verbatim>\<open>None\<close> raises \<^verbatim>\<open>AttributeError\<close>.\<close>

definition child_writeDeadProperty ::
  "('w, 'c) env \<Rightarrow> resource option \<Rightarrow> dead_property \<Rightarrow> ('w, 'c, unit) m" where
  "child_writeDeadProperty env child prop =
     (case child of
        None \<Rightarrow> raise_m AttributeError
      | Some r \<Rightarrow> call (Call_writeDeadProperty r prop) (writeDeadProperty env r prop))"

subsection \<open>\<^verbatim>\<open>generateResponse\<close>, lines 140 to 204\<close>

text \<open>
  The list \<^verbatim>\<open>autoresponses\<close> is mutated in place by the source; here it is passed in and
  returned with the result. The result is the value given to \<^verbatim>\<open>returnValue\<close>.
  Logging (\<^verbatim>\<open>log.err\<close>) is left out.
\<close>

type_synonym autoresponse = "principal \<times> resource \<times> resource option"

definition forbidden_failure :: what where
  "forbidden_failure =
     Failure (ErrorResponse responsecode_FORBIDDEN (caldav_namespace, ''recipient-permissions''))"

text \<open>
  Lines 143 to 147: the name of the new inbox item, an MD5 digest over the calendar text, the
  time (read from the world) and the path of the inbox, and its URL under the inbox.
\<close>

definition new_childURL :: "('w, 'c) env \<Rightarrow> 'c ScheduleViaCalDAV \<Rightarrow> recipient \<Rightarrow> 'w \<Rightarrow> string" where
  "new_childURL env self recipient w =
     (let calendar_s = calendar_str env (calendar (scheduler self));
          name = md5_hexdigest env (calendar_s @ time_str env w @ fp_path (inbox recipient))
                   @ ''.ics''
      in joinURL env (inboxURL recipient) name)"

definition generateResponse ::
  "('w, 'c) env \<Rightarrow> 'c ScheduleViaCalDAV \<Rightarrow> recipient \<Rightarrow> autoresponse list
    \<Rightarrow> ('w, 'c, bool \<times> autoresponse list) m" where
  "generateResponse env self recipient autoresponses =
     bind_m (read_world (new_childURL env self recipient)) (\<lambda>childURL.
     bind_m (call (Call_locateResource childURL) (locateResource env childURL)) (\<lambda>child.
     try_m
       (call (Call_doImplicitProcessing recipient)
          (doImplicitProcessing env (calendar (scheduler self)) (originator (scheduler self))
             recipient))
       (\<lambda>e. case e of
          ImplicitProcessorException msg \<Rightarrow>
            bind_m (responses_add (cuaddr recipient) forbidden_failure msg None) (\<lambda>_.
            unit_m (False, autoresponses))
        | _ \<Rightarrow> raise_m e)
       (\<lambda>(processed, autoprocessed).
          if autoprocessed then
            bind_m (responses_add (cuaddr recipient) (Code responsecode_OK) ''2.0;Success'' None)
              (\<lambda>_. unit_m (True, autoresponses))
          else
            try_m
              (call (Call_StoreCalendarObjectResource child childURL (inbox recipient))
                 (StoreCalendarObjectResource env child childURL (inbox recipient)
                    (calendar (scheduler self))))
              (\<lambda>e.
                 bind_m (responses_add (cuaddr recipient) forbidden_failure
                           ''3.8;No authority'' None) (\<lambda>_.
                 unit_m (False, autoresponses)))
              (\<lambda>_.
                 bind_m (responses_add (cuaddr recipient) (Code responsecode_OK)
                           ''2.0;Success'' None) (\<lambda>_.
                 bind_m (child_writeDeadProperty env child
                           (Originator (cu_cuaddr (originator (scheduler self))))) (\<lambda>_.
                 bind_m (child_writeDeadProperty env child (Recipient (cuaddr recipient))) (\<lambda>_.
                 bind_m (child_writeDeadProperty env child (ScheduleState processed)) (\<lambda>_.
                 unit_m (True,
                   if \<not> processed \<and> autoSchedule env (principal recipient)
                   then autoresponses @ [(principal recipient, inbox recipient, child)]
                   else autoresponses)))))))))"

subsection \<open>\<^verbatim>\<open>generateAttendeeFreeBusyResponse\<close>, lines 232 to 286\<close>

text \<open>
  The \<^verbatim>\<open>for\<close> loop over the free-busy set, lines 256 to 274. The collector mutates
  \<^verbatim>\<open>fbinfo\<close> in place and returns the new match total; here it returns both.
\<close>

fun fbset_loop ::
  "('w, 'c) env \<Rightarrow> 'c ScheduleViaCalDAV \<Rightarrow> bool \<Rightarrow> bool \<Rightarrow> string list \<Rightarrow> fbinfo \<times> int
    \<Rightarrow> ('w, 'c, fbinfo \<times> int) m" where
  "fbset_loop env self same_calendar_user remote [] (fbinfo, matchtotal) =
     unit_m (fbinfo, matchtotal)"
| "fbset_loop env self same_calendar_user remote (calendarResourceURL # rest)
     (fbinfo, matchtotal) =
     bind_m (call (Call_locateResource calendarResourceURL)
               (locateResource env calendarResourceURL)) (\<lambda>calendarResource.
     case calendarResource of
       None \<Rightarrow> fbset_loop env self same_calendar_user remote rest (fbinfo, matchtotal)
     | Some r \<Rightarrow>
         if \<not> resource_exists env r \<or> \<not> isCalendarCollectionResource env r then
           fbset_loop env self same_calendar_user remote rest (fbinfo, matchtotal)
         else
           bind_m (call (Call_generateFreeBusyInfo r)
                     (generateFreeBusyInfo env r fbinfo (timeRange (scheduler self)) matchtotal
                        (excludeUID (scheduler self)) (cu_cuaddr (organizer (scheduler self)))
                        same_calendar_user remote))
             (fbset_loop env self same_calendar_user remote rest))"

text \<open>
  \<^verbatim>\<open>readProperty\<close> stands for the read of the availability property followed by its
  \<^verbatim>\<open>.calendar()\<close>.
\<close>

definition generateAttendeeFreeBusyResponse ::
  "('w, 'c) env \<Rightarrow> 'c ScheduleViaCalDAV \<Rightarrow> recipient \<Rightarrow> string option \<Rightarrow> string
    \<Rightarrow> string option \<Rightarrow> bool \<Rightarrow> ('w, 'c, 'c) m" where
  "generateAttendeeFreeBusyResponse env self recipient organizerProp uid attendeeProp remote =
     bind_m (call (Call_calendarFreeBusyURIs (principal recipient))
               (calendarFreeBusyURIs env (principal recipient))) (\<lambda>fbset.
     bind_m (call (Call_hasProperty (inbox recipient)) (hasProperty env (inbox recipient)))
       (\<lambda>has_prop.
     bind_m (if has_prop then
               bind_m (call (Call_readProperty (inbox recipient))
                         (readProperty env (inbox recipient))) (\<lambda>availability.
               lift (processAvailabilityFreeBusy env availability ([], [], [])
                       (timeRange (scheduler self))))
             else unit_m ([], [], [])) (\<lambda>fbinfo.
     let same_calendar_user =
           (case organizer (scheduler self) of
              LocalCalendarUser a p \<Rightarrow> principalURL p = principalURL (principal recipient)
            | RemoteCalendarUser a \<Rightarrow> False)
     in
     bind_m (fbset_loop env self same_calendar_user remote fbset (fbinfo, 0))
       (\<lambda>(fbinfo, matchtotal).
     lift (buildFreeBusyResult env fbinfo (timeRange (scheduler self)) organizerProp
             attendeeProp uid ''REPLY'')))))"

subsection \<open>\<^verbatim>\<open>generateFreeBusyResponse\<close>, lines 206 to 230\<close>

definition generateFreeBusyResponse ::
  "('w, 'c) env \<Rightarrow> 'c ScheduleViaCalDAV \<Rightarrow> recipient \<Rightarrow> string option \<Rightarrow> string
    \<Rightarrow> ('w, 'c, bool) m" where
  "generateFreeBusyResponse env self recipient organizerProp uid =
     (let cuas = calendarUserAddresses env (principal recipient) in
      bind_m (lift (getAttendeeProperty env (calendar (scheduler self)) cuas)) (\<lambda>attendeeProp.
      let remote = isRemoteCalendarUser (organizer (scheduler self)) in
      try_m
        (generateAttendeeFreeBusyResponse env self recipient organizerProp uid attendeeProp
           remote)
        (\<lambda>e.
           bind_m (responses_add (cuaddr recipient) forbidden_failure ''3.8;No authority'' None)
             (\<lambda>_. unit_m False))
        (\<lambda>fbresult.
           bind_m (responses_add (cuaddr recipient) (Code responsecode_OK) ''2.0;Success''
                     (Some fbresult))
             (\<lambda>_. unit_m True))))"

subsection \<open>\<^verbatim>\<open>generateSchedulingResponses\<close>, lines 92 to 138\<close>

text \<open>The two branches of lines 123 to 126; the value of the call is dropped.\<close>

definition deliver ::
  "('w, 'c) env \<Rightarrow> 'c ScheduleViaCalDAV \<Rightarrow> string option \<Rightarrow> string \<Rightarrow> recipient
    \<Rightarrow> autoresponse list \<Rightarrow> ('w, 'c, autoresponse list) m" where
  "deliver env self organizerProp uid recipient autoresponses =
     (if freebusy self then
        bind_m (generateFreeBusyResponse env self recipient organizerProp uid)
          (\<lambda>_. unit_m autoresponses)
      else
        bind_m (generateResponse env self recipient autoresponses)
          (\<lambda>(accepted, autoresponses'). unit_m autoresponses'))"

text \<open>
  One turn of the loop over the recipients, lines 101 to 126. Only
  \<^verbatim>\<open>AccessDeniedError\<close> is caught around the access check; the handler ends with
  \<^verbatim>\<open>continue\<close>.
\<close>

definition recipient_body ::
  "('w, 'c) env \<Rightarrow> 'c ScheduleViaCalDAV \<Rightarrow> string option \<Rightarrow> string \<Rightarrow> recipient
    \<Rightarrow> autoresponse list \<Rightarrow> ('w, 'c, autoresponse list) m" where
  "recipient_body env self organizerProp uid recipient autoresponses =
     (case organizer (scheduler self) of
        LocalCalendarUser a p \<Rightarrow>
          try_m
            (call (Call_checkPrivileges (inbox recipient) (principalURL p))
               (checkPrivileges env (inbox recipient) (principalURL p)))
            (\<lambda>e. case e of
               AccessDeniedError \<Rightarrow>
                 bind_m (responses_add (cuaddr recipient)
                           (Failure (ErrorResponse responsecode_NOT_FOUND
                              (caldav_namespace, ''recipient-permissions'')))
                           ''3.8;No authority'' None)
                   (\<lambda>_. unit_m autoresponses)
             | _ \<Rightarrow> raise_m e)
            (\<lambda>_. deliver env self organizerProp uid recipient autoresponses)
      | RemoteCalendarUser a \<Rightarrow> deliver env self organizerProp uid recipient autoresponses)"

fun recipients_loop ::
  "('w, 'c) env \<Rightarrow> 'c ScheduleViaCalDAV \<Rightarrow> string option \<Rightarrow> string \<Rightarrow> recipient list
    \<Rightarrow> autoresponse list \<Rightarrow> ('w, 'c, autoresponse list) m" where
  "recipients_loop env self organizerProp uid [] autoresponses = unit_m autoresponses"
| "recipients_loop env self organizerProp uid (recipient # rest) autoresponses =
     bind_m (recipient_body env self organizerProp uid recipient autoresponses)
       (recipients_loop env self organizerProp uid rest)"

text \<open>The loop of lines 135 to 138: one delayed call for each auto response.\<close>

fun autoresponses_loop ::
  "('w, 'c) env \<Rightarrow> 'c ScheduleViaCalDAV \<Rightarrow> autoresponse list \<Rightarrow> ('w, 'c, unit) m" where
  "autoresponses_loop env self [] = unit_m ()"
| "autoresponses_loop env self ((a_principal, a_inbox, child) # rest) =
     bind_m (callLater (HandleRequest a_principal a_inbox
                          (duplicate env (calendar (scheduler self))) child))
       (\<lambda>_. autoresponses_loop env self rest)"

definition generateSchedulingResponses ::
  "('w, 'c) env \<Rightarrow> 'c ScheduleViaCalDAV \<Rightarrow> ('w, 'c, unit) m" where
  "generateSchedulingResponses env self =
     (let organizerProp = getOrganizerProperty env (calendar (scheduler self));
          uid = resourceUID env (calendar (scheduler self))
      in
      bind_m (recipients_loop env self organizerProp uid (recipients self) [])
        (\<lambda>autoresponses.
      let autoresponses' =
            (if length autoresponses \<noteq> 0 then
               (if \<not> canAutoRespond env (calendar (scheduler self)) then []
                else autoresponses)
             else autoresponses)
      in autoresponses_loop env self autoresponses'))"

subsection \<open>Observations on the log of calls\<close>

fun is_checkPrivileges :: "event \<Rightarrow> bool" where
  "is_checkPrivileges (Call_checkPrivileges r p) = True"
| "is_checkPrivileges ev = False"

text \<open>The collections handed to the free-busy collector, in the order of the calls.\<close>

fun collected :: "event list \<Rightarrow> resource list" where
  "collected [] = []"
| "collected (Call_generateFreeBusyInfo r # evs) = r # collected evs"
| "collected (ev # evs) = collected evs"

text \<open>A located resource that exists and is a calendar collection (line 259).\<close>

definition usable :: "('w, 'c) env \<Rightarrow> resource option \<Rightarrow> bool" where
  "usable env calendarResource =
     (case calendarResource of
        None \<Rightarrow> False
      | Some r \<Rightarrow> resource_exists env r \<and> isCalendarCollectionResource env r)"


text \<open>An observation of the state that a computation leaves as it is.\<close>

definition stable :: "(('w, 'c) sys \<Rightarrow> 'x) \<Rightarrow> ('w, 'c, 'a) m \<Rightarrow> bool" where
  "stable obs f = (\<forall>s. obs (snd (f s)) = obs s)"

subsection \<open>The failures that a turn of the loop catches\<close>

text \<open>
  The failure that the turn of one recipient catches, if any, as the spec's error taxonomy
  names it, with the status code and the request status of the entry it is converted into:
  a denied access check (404, \<^verbatim>\<open>3.8;No authority\<close>), the typed failure of the implicit
  processor (403, its message), any failure of the storage (403, \<^verbatim>\<open>3.8;No authority\<close>),
  any failure of the free-busy aggregation (403, \<^verbatim>\<open>3.8;No authority\<close>). The turn
  starts in the state \<open>s\<close>; each collaborator is asked in the world that the ones before
  it have left. An exception that no handler catches is no caught failure.
\<close>

type_synonym failure = "nat \<times> string"

definition delivery_failure ::
  "('w, 'c) env \<Rightarrow> 'c ScheduleViaCalDAV \<Rightarrow> string option \<Rightarrow> string \<Rightarrow> recipient
    \<Rightarrow> ('w, 'c) sys \<Rightarrow> failure option" where
  "delivery_failure env self organizerProp uid recipient s =
     (if freebusy self then
        (case getAttendeeProperty env (calendar (scheduler self))
                (calendarUserAddresses env (principal recipient)) of
           Inl e \<Rightarrow> None
         | Inr attendeeProp \<Rightarrow>
             (case generateAttendeeFreeBusyResponse env self recipient organizerProp uid
                     attendeeProp (isRemoteCalendarUser (organizer (scheduler self))) s of
                (Inl e, s1) \<Rightarrow> Some (responsecode_FORBIDDEN, ''3.8;No authority'')
              | (Inr fbresult, s1) \<Rightarrow> None))
      else
        (case locateResource env (new_childURL env self recipient (world s)) (world s) of
           (Inl e, w1) \<Rightarrow> None
         | (Inr child, w1) \<Rightarrow>
             (case doImplicitProcessing env (calendar (scheduler self))
                     (originator (scheduler self)) recipient w1 of
                (Inl e, w2) \<Rightarrow>
                  (case e of
                     ImplicitProcessorException msg \<Rightarrow> Some (responsecode_FORBIDDEN, msg)
                   | _ \<Rightarrow> None)
              | (Inr (processed, autoprocessed), w2) \<Rightarrow>
                  if autoprocessed then None
                  else
                    (case StoreCalendarObjectResource env child
                            (new_childURL env self recipient (world s)) (inbox recipient)
                            (calendar (scheduler self)) w2 of
                       (Inl e, w3) \<Rightarrow> Some (responsecode_FORBIDDEN, ''3.8;No authority'')
                     | (Inr u, w3) \<Rightarrow> None))))"

definition caught_failure ::
  "('w, 'c) env \<Rightarrow> 'c ScheduleViaCalDAV \<Rightarrow> string option \<Rightarrow> string \<Rightarrow> recipient
    \<Rightarrow> ('w, 'c) sys \<Rightarrow> failure option" where
  "caught_failure env self organizerProp uid recipient s =
     (case organizer (scheduler self) of
        LocalCalendarUser a p \<Rightarrow>
          (case call (Call_checkPrivileges (inbox recipient) (principalURL p))
                  (checkPrivileges env (inbox recipient) (principalURL p)) s of
             (Inl e, s1) \<Rightarrow>
               (case e of
                  AccessDeniedError \<Rightarrow> Some (responsecode_NOT_FOUND, ''3.8;No authority'')
                | _ \<Rightarrow> None)
           | (Inr u, s1) \<Rightarrow> delivery_failure env self organizerProp uid recipient s1)
      | RemoteCalendarUser a \<Rightarrow> delivery_failure env self organizerProp uid recipient s)"

text \<open>
  The caught failures of the turns of the loop, one for each recipient: the first turn starts
  in \<open>s\<close>, the next one in the state that the turn before it has left.
\<close>

fun caught_failures ::
  "('w, 'c) env \<Rightarrow> 'c ScheduleViaCalDAV \<Rightarrow> string option \<Rightarrow> string \<Rightarrow> recipient list
    \<Rightarrow> autoresponse list \<Rightarrow> ('w, 'c) sys \<Rightarrow> failure option list" where
  "caught_failures env self organizerProp uid [] autoresponses s = []"
| "caught_failures env self organizerProp uid (recipient # rest) autoresponses s =
     caught_failure env self organizerProp uid recipient s #
     (case recipient_body env self organizerProp uid recipient autoresponses s of
        (Inl e, s') \<Rightarrow> []
      | (Inr autoresponses', s') \<Rightarrow>
          caught_failures env self organizerProp uid rest autoresponses' s')"

text \<open>
  What an entry reports: a caught failure as a \<^verbatim>\<open>Failure\<close> with its status code, its
  request status and no calendar; no failure as the code 200 with \<^verbatim>\<open>2.0;Success\<close>.
\<close>

definition entry_reports :: "failure option \<Rightarrow> 'c response_entry \<Rightarrow> bool" where
  "entry_reports f e =
     (case f of
        Some (code, reqstatus) \<Rightarrow>
          re_what e = Failure (ErrorResponse code (caldav_namespace, ''recipient-permissions''))
          \<and> re_reqstatus e = reqstatus \<and> re_calendar e = None
      | None \<Rightarrow> re_what e = Code responsecode_OK \<and> re_reqstatus e = ''2.0;Success'')"

subsection \<open>A concrete environment\<close>

text \<open>
  Two recipients and collaborators that all succeed; the world counts the stored items, an
  iCalendar object is its method with its free-busy periods.
\<close>

type_synonym demo_calendar = "string \<times> fbinfo"

definition alice :: recipient where
  "alice = \<lparr>cuaddr = ''mailto:alice@example.com'',
             principal = Principal ''/principals/users/alice/'',
             inbox = Resource ''/calendars/users/alice/inbox'',
             inboxURL = ''/calendars/users/alice/inbox/''\<rparr>"

definition bob :: recipient where
  "bob = \<lparr>cuaddr = ''mailto:bob@example.com'',
           principal = Principal ''/principals/users/bob/'',
           inbox = Resource ''/calendars/users/bob/inbox'',
           inboxURL = ''/calendars/users/bob/inbox/''\<rparr>"

definition demo_resolve :: "string \<Rightarrow> resource option" where
  "demo_resolve url = (if url = ''/missing/'' then None else Some (Resource url))"

definition demo_env :: "(nat, demo_calendar) env" where
  "demo_env =
     \<lparr>getOrganizerProperty = (\<lambda>c. Some ''mailto:carol@example.com''),
      resourceUID = (\<lambda>c. ''uid-1''),
      calendar_str = (\<lambda>c. fst c),
      duplicate = (\<lambda>c. c),
      getAttendeeProperty = (\<lambda>c cuas. Inr (case cuas of [] \<Rightarrow> None | a # _ \<Rightarrow> Some a)),
      canAutoRespond = (\<lambda>c. fst c = ''REQUEST''),
      autoSchedule = (\<lambda>p. True),
      calendarUserAddresses = (\<lambda>p. [principalURL p]),
      calendarFreeBusyURIs = (\<lambda>p w. (Inr [''/missing/'', ''/calendars/work/''], w)),
      checkPrivileges = (\<lambda>r p w. (Inr (), w)),
      locateResource = (\<lambda>url w. (Inr (demo_resolve url), w)),
      resource_exists = (\<lambda>r. True),
      isCalendarCollectionResource = (\<lambda>r. fp_path r = ''/calendars/work/''),
      hasProperty = (\<lambda>r w. (Inr False, w)),
      readProperty = (\<lambda>r w. (Inr (''VAVAILABILITY'', ([], [], [])), w)),
      writeDeadProperty = (\<lambda>r p w. (Inr (), w)),
      doImplicitProcessing = (\<lambda>c u r w. (Inr (False, False), w)),
      StoreCalendarObjectResource = (\<lambda>child url parent c w. (Inr (), Suc w)),
      processAvailabilityFreeBusy = (\<lambda>c fb tr. Inr fb),
      generateFreeBusyInfo =
        (\<lambda>r (b, t, u) tr m ex org same remote w. (Inr ((b @ [(10, 20)], t, u), m + 1), w)),
      buildFreeBusyResult = (\<lambda>fb tr org att uid method. Inr (method, fb)),
      md5_hexdigest = (\<lambda>x. ''0cc175b9c0f1b6a831c399e269772661''),
      time_str = (\<lambda>w. ''1199145600.0''),
      joinURL = (\<lambda>a b. a @ b)\<rparr>"

definition demo_self :: "bool \<Rightarrow> demo_calendar ScheduleViaCalDAV" where
  "demo_self fb =
     \<lparr>scheduler =
        \<lparr>calendar = (''REQUEST'', ([], [], [])),
         organizer = LocalCalendarUser ''mailto:carol@example.com''
                       (Principal ''/principals/users/carol/''),
         originator = LocalCalendarUser ''mailto:carol@example.com''
                       (Principal ''/principals/users/carol/''),
         timeRange = (0, 100),
         excludeUID = None\<rparr>,
      recipients = [alice, bob],
      freebusy = fb\<rparr>"

definition s0 :: "(nat, demo_calendar) sys" where
  "s0 = \<lparr>world = 0, responses = [], reactor = [], calls = []\<rparr>"

text \<open>Variants in which one collaborator behaves differently.\<close>

definition env_typed_failure :: "(nat, demo_calendar) env" where
  "env_typed_failure = demo_env\<lparr>doImplicitProcessing :=
     (\<lambda>c u r w. (Inl (ImplicitProcessorException ''5.3;No scheduling support''), w))\<rparr>"

definition env_autoprocessed :: "(nat, demo_calendar) env" where
  "env_autoprocessed = demo_env\<lparr>doImplicitProcessing := (\<lambda>c u r w. (Inr (True, True), w))\<rparr>"

definition env_access_denied :: "(nat, demo_calendar) env" where
  "env_access_denied = demo_env\<lparr>checkPrivileges := (\<lambda>r p w. (Inl AccessDeniedError, w))\<rparr>"

definition env_locate_failure :: "(nat, demo_calendar) env" where
  "env_locate_failure = demo_env\<lparr>locateResource :=
     (\<lambda>url w. (Inl (OtherError ''IOError''), w))\<rparr>"

definition env_attendee_failure :: "(nat, demo_calendar) env" where
  "env_attendee_failure = demo_env\<lparr>getAttendeeProperty :=
     (\<lambda>c cuas. Inl (OtherError ''ValueError''))\<rparr>"

definition env_collector_failure :: "(nat, demo_calendar) env" where
  "env_collector_failure = demo_env\<lparr>generateFreeBusyInfo :=
     (\<lambda>r fb tr m ex org same remote w. (Inl (OtherError ''NumberOfMatchesWithinLimits''), w))\<rparr>"

definition env_no_sources :: "(nat, demo_calendar) env" where
  "env_no_sources = demo_env\<lparr>calendarFreeBusyURIs :=
     (\<lambda>p w. (Inr [''/missing/'', ''/calendars/users/alice/notes/''], w))\<rparr>"

definition remote_self :: "demo_calendar ScheduleViaCalDAV" where
  "remote_self = (demo_self False)\<lparr>scheduler := (scheduler (demo_self False))
     \<lparr>organizer := RemoteCalendarUser ''mailto:dave@example.org''\<rparr>\<rparr>"

definition env_store_failure :: "(nat, demo_calendar) env" where
  "env_store_failure = demo_env\<lparr>StoreCalendarObjectResource :=
     (\<lambda>child url parent c w.
        if parent = Resource ''/calendars/users/alice/inbox''
        then (Inl (OtherError ''IOError''), w) else (Inr (), Suc w))\<rparr>"

definition env_write_failure :: "(nat, demo_calendar) env" where
  "env_write_failure = demo_env\<lparr>writeDeadProperty :=
     (\<lambda>r p w. (Inl (OtherError ''IOError''), w))\<rparr>"

definition env_no_sources_attendee_failure :: "(nat, demo_calendar) env" where
  "env_no_sources_attendee_failure = env_no_sources\<lparr>getAttendeeProperty :=
     (\<lambda>c cuas. Inl (OtherError ''ValueError''))\<rparr>"

definition env_no_sources_build_failure :: "(nat, demo_calendar) env" where
  "env_no_sources_build_failure = env_no_sources\<lparr>buildFreeBusyResult :=
     (\<lambda>fb tr org att uid method. Inl (OtherError ''ValueError''))\<rparr>"

section \<open>Properties\<close>

subsection \<open>The address classifier\<close>

text \<open>A split is never the empty list, so its element 0 (\<open>hd\<close>) exists.\<close>

lemma split_chr_nonempty: "split_chr c s \<noteq> []"
  by (induction s) (auto split: list.splits)

text \<open>
  C3. For an \<^verbatim>\<open>https://\<close> address the text that the code compares with the configured
  HTTP domain is not the host: \<^verbatim>\<open>cuaddr.split(":")[0][2:]\<close> is the scheme without its
  first two characters, \<^verbatim>\<open>"tps"\<close>. With HTTPDomain \<^verbatim>\<open>example.com\<close> and no address
  pattern configured, \<^verbatim>\<open>https://cal.example.com/x?y\<close> is therefore not matched, where the
  claim says it is.
\<close>

theorem matchCalendarUserAddress_https_example:
  "matchCalendarUserAddress
     \<lparr>EmailDomain = '''', HTTPDomain = ''example.com'', AddressPatterns = []\<rparr>
     ''https://cal.example.com/x?y'' = False"
  by (simp add: matchCalendarUserAddress_def startswith_def endswith_def
        DeliveryService_matchCalendarUserAddress_def suffix_to_prefix)


subsection \<open>Observations that a computation leaves unchanged\<close>

lemmas m_defs = unit_m_def raise_m_def bind_m_def try_m_def call_def lift_def read_world_def
  responses_add_def callLater_def child_writeDeadProperty_def


named_theorems stable_intros

lemma stable_unit [stable_intros]: "stable obs (unit_m x)"
  by (simp add: stable_def unit_m_def)

lemma stable_raise [stable_intros]: "stable obs (raise_m e)"
  by (simp add: stable_def raise_m_def)

lemma stable_lift [stable_intros]: "stable obs (lift r)"
  by (simp add: stable_def lift_def)

lemma stable_read_world [stable_intros]: "stable obs (read_world f)"
  by (simp add: stable_def read_world_def)

lemma stable_bind [stable_intros]:
  "stable obs f \<Longrightarrow> (\<And>x. stable obs (g x)) \<Longrightarrow> stable obs (bind_m f g)"
  unfolding stable_def bind_m_def
proof
  fix s
  assume f: "\<forall>s. obs (snd (f s)) = obs s" and g: "\<And>x. \<forall>s. obs (snd (g x s)) = obs s"
  obtain r s' where fs: "f s = (r, s')" by (cases "f s")
  from f fs have "obs s' = obs s" by (metis snd_conv)
  with g fs show "obs (snd (case f s of (Inl e, s') \<Rightarrow> (Inl e, s') | (Inr x, s') \<Rightarrow> g x s')) = obs s"
    by (cases r) auto
qed

lemma stable_try [stable_intros]:
  "stable obs f \<Longrightarrow> (\<And>e. stable obs (h e)) \<Longrightarrow> (\<And>x. stable obs (g x))
    \<Longrightarrow> stable obs (try_m f h g)"
  unfolding stable_def try_m_def
proof
  fix s
  assume f: "\<forall>s. obs (snd (f s)) = obs s" and h: "\<And>e. \<forall>s. obs (snd (h e s)) = obs s"
    and g: "\<And>x. \<forall>s. obs (snd (g x s)) = obs s"
  obtain r s' where fs: "f s = (r, s')" by (cases "f s")
  from f fs have "obs s' = obs s" by (metis snd_conv)
  with g h fs show "obs (snd (case f s of (Inl e, s') \<Rightarrow> h e s' | (Inr x, s') \<Rightarrow> g x s')) = obs s"
    by (cases r) auto
qed

lemma stable_call_responses [stable_intros]: "stable responses (call ev f)"
  by (simp add: stable_def call_def split: prod.split)

lemma stable_call_reactor [stable_intros]: "stable reactor (call ev f)"
  by (simp add: stable_def call_def split: prod.split)

lemma stable_call_calls [stable_intros]:
  "\<not> P ev \<Longrightarrow> stable (\<lambda>s. filter P (calls s)) (call ev f)"
  by (simp add: stable_def call_def split: prod.split)

lemma stable_add_reactor [stable_intros]: "stable reactor (responses_add r w rs c)"
  by (simp add: stable_def responses_add_def)

lemma stable_add_calls [stable_intros]: "stable (\<lambda>s. F (calls s)) (responses_add r w rs c)"
  by (simp add: stable_def responses_add_def)

lemma stable_later_responses [stable_intros]: "stable responses (callLater dc)"
  by (simp add: stable_def callLater_def)

lemma stable_later_calls [stable_intros]: "stable (\<lambda>s. F (calls s)) (callLater dc)"
  by (simp add: stable_def callLater_def)

lemma stable_fbset_loop_responses:
  "stable responses (fbset_loop env self same remote fbset acc)"
proof (induction fbset arbitrary: acc)
  case Nil
  then show ?case by (cases acc) (simp add: stable_intros)
next
  case (Cons u us)
  show ?case
    by (cases acc) (auto intro!: stable_intros Cons.IH split: option.split)
qed

lemma stable_gafbr_responses:
  "stable responses (generateAttendeeFreeBusyResponse env self r op uid ap remote)"
  unfolding generateAttendeeFreeBusyResponse_def Let_def
  by (auto intro!: stable_intros stable_fbset_loop_responses split: prod.split)

lemmas demo_defs = demo_env_def demo_self_def alice_def bob_def s0_def new_childURL_def
  demo_resolve_def

lemma alice_fields:
  "cuaddr alice = ''mailto:alice@example.com''"
  "principal alice = Principal ''/principals/users/alice/''"
  "inbox alice = Resource ''/calendars/users/alice/inbox''"
  by (simp_all add: alice_def)

lemma stable_child_write_responses [stable_intros]:
  "stable responses (child_writeDeadProperty env child prop)"
  by (cases child) (simp_all add: child_writeDeadProperty_def stable_intros)

lemma stable_child_write_reactor [stable_intros]:
  "stable reactor (child_writeDeadProperty env child prop)"
  by (cases child) (simp_all add: child_writeDeadProperty_def stable_intros)

lemma stable_child_write_check [stable_intros]:
  "stable (\<lambda>s. filter is_checkPrivileges (calls s)) (child_writeDeadProperty env child prop)"
  by (cases child) (simp_all add: child_writeDeadProperty_def stable_intros)

subsection \<open>Invite delivery\<close>

text \<open>
  C7. When the new item has been located and the implicit processor raises
  \<^verbatim>\<open>ImplicitProcessorException\<close> with message \<open>msg\<close>, \<^verbatim>\<open>generateResponse\<close> returns
  \<^verbatim>\<open>False\<close>, the only entry it appends is a 403 (forbidden) failure for the recipient
  whose request status is \<open>msg\<close>, and the list of auto responses is returned as it was.
\<close>

theorem generateResponse_typed_failure:
  assumes "locateResource env (new_childURL env self recipient (world s)) (world s)
             = (Inr child, w1)"
    and "doImplicitProcessing env (calendar (scheduler self)) (originator (scheduler self))
           recipient w1 = (Inl (ImplicitProcessorException msg), w2)"
  shows "generateResponse env self recipient autoresponses s =
     (Inr (False, autoresponses),
      s\<lparr>world := w2,
        calls := calls s @ [Call_locateResource (new_childURL env self recipient (world s)),
                            Call_doImplicitProcessing recipient],
        responses := responses s @
          [\<lparr>re_recipient = cuaddr recipient,
            re_what = Failure (ErrorResponse responsecode_FORBIDDEN
                        (caldav_namespace, ''recipient-permissions'')),
            re_reqstatus = msg,
            re_calendar = None\<rparr>]\<rparr>)"
  using assms by (simp add: generateResponse_def m_defs forbidden_failure_def)

theorem generateResponse_typed_failure_witness:
  "generateResponse env_typed_failure (demo_self False) alice [] s0 =
     (Inr (False, []),
      s0\<lparr>calls := [Call_locateResource
                     ''/calendars/users/alice/inbox/0cc175b9c0f1b6a831c399e269772661.ics'',
                   Call_doImplicitProcessing alice],
         responses := [\<lparr>re_recipient = ''mailto:alice@example.com'',
            re_what = Failure (ErrorResponse 403
                        (caldav_namespace, ''recipient-permissions'')),
            re_reqstatus = ''5.3;No scheduling support'',
            re_calendar = None\<rparr>]\<rparr>)"
proof -
  have 1: "doImplicitProcessing env_typed_failure (calendar (scheduler (demo_self False)))
             (originator (scheduler (demo_self False))) alice 0
           = (Inl (ImplicitProcessorException ''5.3;No scheduling support''), 0)"
    by (simp add: env_typed_failure_def demo_env_def)
  have 2: "locateResource env_typed_failure (new_childURL env_typed_failure (demo_self False) alice (world s0))
             (world s0)
           = (Inr (Some (Resource
                ''/calendars/users/alice/inbox/0cc175b9c0f1b6a831c399e269772661.ics'')), 0)"
    by (simp add: env_typed_failure_def demo_defs)
  have 3: "new_childURL env_typed_failure (demo_self False) alice 0
           = ''/calendars/users/alice/inbox/0cc175b9c0f1b6a831c399e269772661.ics''"
    by (simp add: env_typed_failure_def demo_defs)
  show ?thesis
    using generateResponse_typed_failure [OF 2 1, of "[]"]
    by (simp add: 3 alice_fields s0_def responsecode_FORBIDDEN_def)
qed

text \<open>
  C5. When the new item has been located and the implicit processor reports
  \<^verbatim>\<open>autoprocessed\<close>, \<^verbatim>\<open>generateResponse\<close> returns \<^verbatim>\<open>True\<close>, appends one success
  entry (200, \<^verbatim>\<open>2.0;Success\<close>) for the recipient, returns the list of auto responses as
  it was, and its only calls are the location of the item and the implicit processing:
  nothing is stored.
\<close>

theorem generateResponse_autoprocessed:
  assumes "locateResource env (new_childURL env self recipient (world s)) (world s)
             = (Inr child, w1)"
    and "doImplicitProcessing env (calendar (scheduler self)) (originator (scheduler self))
           recipient w1 = (Inr (processed, True), w2)"
  shows "generateResponse env self recipient autoresponses s =
     (Inr (True, autoresponses),
      s\<lparr>world := w2,
        calls := calls s @ [Call_locateResource (new_childURL env self recipient (world s)),
                            Call_doImplicitProcessing recipient],
        responses := responses s @
          [\<lparr>re_recipient = cuaddr recipient,
            re_what = Code responsecode_OK,
            re_reqstatus = ''2.0;Success'',
            re_calendar = None\<rparr>]\<rparr>)"
  using assms by (simp add: generateResponse_def m_defs)

theorem generateResponse_autoprocessed_witness:
  "generateResponse env_autoprocessed (demo_self False) alice [] s0 =
     (Inr (True, []),
      s0\<lparr>calls := [Call_locateResource
                     ''/calendars/users/alice/inbox/0cc175b9c0f1b6a831c399e269772661.ics'',
                   Call_doImplicitProcessing alice],
         responses := [\<lparr>re_recipient = ''mailto:alice@example.com'',
            re_what = Code 200,
            re_reqstatus = ''2.0;Success'',
            re_calendar = None\<rparr>]\<rparr>)"
proof -
  have 1: "doImplicitProcessing env_autoprocessed (calendar (scheduler (demo_self False)))
             (originator (scheduler (demo_self False))) alice 0
           = (Inr (True, True), 0)"
    by (simp add: env_autoprocessed_def demo_env_def)
  have 2: "locateResource env_autoprocessed (new_childURL env_autoprocessed (demo_self False) alice (world s0))
             (world s0)
           = (Inr (Some (Resource
                ''/calendars/users/alice/inbox/0cc175b9c0f1b6a831c399e269772661.ics'')), 0)"
    by (simp add: env_autoprocessed_def demo_defs)
  have 3: "new_childURL env_autoprocessed (demo_self False) alice 0
           = ''/calendars/users/alice/inbox/0cc175b9c0f1b6a831c399e269772661.ics''"
    by (simp add: env_autoprocessed_def demo_defs)
  show ?thesis
    using generateResponse_autoprocessed [OF 2 1, of "[]"]
    by (simp add: 3 alice_fields s0_def responsecode_OK_def)
qed

text \<open>
  C6, as the code has it. The dead properties are written after the storage and before the
  test for the auto response, outside every \<^verbatim>\<open>try\<close>. When the implicit processor
  reports \<^verbatim>\<open>autoprocessed\<close> false, the located item is a resource, it is stored and its
  three dead properties are written, \<^verbatim>\<open>generateResponse\<close> returns \<^verbatim>\<open>True\<close> and the
  list of auto responses grows by the one candidate (principal, inbox, stored item) of the
  recipient if \<^verbatim>\<open>processed\<close> is false and the principal has auto-schedule, and is returned
  as it was otherwise.
\<close>

theorem generateResponse_stored:
  assumes "locateResource env (new_childURL env self recipient (world s)) (world s)
             = (Inr (Some c), w1)"
    and "doImplicitProcessing env (calendar (scheduler self)) (originator (scheduler self))
           recipient w1 = (Inr (processed, False), w2)"
    and "StoreCalendarObjectResource env (Some c) (new_childURL env self recipient (world s))
           (inbox recipient) (calendar (scheduler self)) w2 = (Inr (), w3)"
    and "writeDeadProperty env c (Originator (cu_cuaddr (originator (scheduler self)))) w3
           = (Inr (), w4)"
    and "writeDeadProperty env c (Recipient (cuaddr recipient)) w4 = (Inr (), w5)"
    and "writeDeadProperty env c (ScheduleState processed) w5 = (Inr (), w6)"
  shows "generateResponse env self recipient autoresponses s =
     (Inr (True,
           if \<not> processed \<and> autoSchedule env (principal recipient)
           then autoresponses @ [(principal recipient, inbox recipient, Some c)]
           else autoresponses),
      s\<lparr>world := w6,
        calls := calls s @
          [Call_locateResource (new_childURL env self recipient (world s)),
           Call_doImplicitProcessing recipient,
           Call_StoreCalendarObjectResource (Some c)
             (new_childURL env self recipient (world s)) (inbox recipient),
           Call_writeDeadProperty c (Originator (cu_cuaddr (originator (scheduler self)))),
           Call_writeDeadProperty c (Recipient (cuaddr recipient)),
           Call_writeDeadProperty c (ScheduleState processed)],
        responses := responses s @
          [\<lparr>re_recipient = cuaddr recipient,
            re_what = Code responsecode_OK,
            re_reqstatus = ''2.0;Success'',
            re_calendar = None\<rparr>]\<rparr>)"
  using assms by (simp add: generateResponse_def m_defs)

theorem generateResponse_stored_witness:
  "fst (generateResponse demo_env (demo_self False) alice [] s0) =
     Inr (True,
          [(Principal ''/principals/users/alice/'', Resource ''/calendars/users/alice/inbox'',
            Some (Resource
              ''/calendars/users/alice/inbox/0cc175b9c0f1b6a831c399e269772661.ics''))])"
proof -
  let ?c = "Resource ''/calendars/users/alice/inbox/0cc175b9c0f1b6a831c399e269772661.ics''"
  have 1: "locateResource demo_env (new_childURL demo_env (demo_self False) alice (world s0))
             (world s0) = (Inr (Some ?c), 0)"
    by (simp add: demo_defs)
  have 2: "doImplicitProcessing demo_env (calendar (scheduler (demo_self False)))
             (originator (scheduler (demo_self False))) alice 0 = (Inr (False, False), 0)"
    by (simp add: demo_env_def)
  have 3: "StoreCalendarObjectResource demo_env (Some ?c)
             (new_childURL demo_env (demo_self False) alice (world s0)) (inbox alice)
             (calendar (scheduler (demo_self False))) 0 = (Inr (), 1)"
    by (simp add: demo_env_def)
  have 4: "writeDeadProperty demo_env ?c
             (Originator (cu_cuaddr (originator (scheduler (demo_self False))))) 1 = (Inr (), 1)"
    by (simp add: demo_env_def)
  have 5: "writeDeadProperty demo_env ?c (Recipient (cuaddr alice)) 1 = (Inr (), 1)"
    by (simp add: demo_env_def)
  have 6: "writeDeadProperty demo_env ?c (ScheduleState False) 1 = (Inr (), 1)"
    by (simp add: demo_env_def)
  have 7: "autoSchedule demo_env (principal alice)"
    by (simp add: demo_env_def)
  show ?thesis
    using generateResponse_stored [OF 1 2 3 4 5 6, of "[]"] 7
    by (simp add: alice_fields)
qed

text \<open>
  The claim C6 itself fails: the item is stored, \<^verbatim>\<open>processed\<close> is false and the
  principal has auto-schedule, but the writing of the first dead property raises; the
  exception leaves \<^verbatim>\<open>generateResponse\<close> after the success entry has been appended, and
  no candidate is produced.
\<close>

theorem generateResponse_annotation_counterexample:
  "doImplicitProcessing env_write_failure (calendar (scheduler (demo_self False)))
     (originator (scheduler (demo_self False))) alice 0 = (Inr (False, False), 0)
   \<and> StoreCalendarObjectResource env_write_failure
       (Some (Resource ''/calendars/users/alice/inbox/0cc175b9c0f1b6a831c399e269772661.ics''))
       ''/calendars/users/alice/inbox/0cc175b9c0f1b6a831c399e269772661.ics''
       (inbox alice) (calendar (scheduler (demo_self False))) 0 = (Inr (), 1)
   \<and> autoSchedule env_write_failure (principal alice)
   \<and> generateResponse env_write_failure (demo_self False) alice [] s0 =
       (Inl (OtherError ''IOError''),
        s0\<lparr>world := 1,
           calls := [Call_locateResource
                       ''/calendars/users/alice/inbox/0cc175b9c0f1b6a831c399e269772661.ics'',
                     Call_doImplicitProcessing alice,
                     Call_StoreCalendarObjectResource
                       (Some (Resource
                          ''/calendars/users/alice/inbox/0cc175b9c0f1b6a831c399e269772661.ics''))
                       ''/calendars/users/alice/inbox/0cc175b9c0f1b6a831c399e269772661.ics''
                       (Resource ''/calendars/users/alice/inbox''),
                     Call_writeDeadProperty
                       (Resource
                          ''/calendars/users/alice/inbox/0cc175b9c0f1b6a831c399e269772661.ics'')
                       (Originator ''mailto:carol@example.com'')],
           responses := [\<lparr>re_recipient = ''mailto:alice@example.com'',
                          re_what = Code 200,
                          re_reqstatus = ''2.0;Success'',
                          re_calendar = None\<rparr>]\<rparr>)"
  by (simp add: generateResponse_def m_defs env_write_failure_def demo_defs
        responsecode_OK_def)


subsection \<open>What the delivery paths leave unchanged\<close>

lemma stable_fbset_loop_reactor:
  "stable reactor (fbset_loop env self same remote fbset acc)"
proof (induction fbset arbitrary: acc)
  case Nil
  then show ?case by (cases acc) (simp add: stable_intros)
next
  case (Cons u us)
  show ?case
    by (cases acc) (auto intro!: stable_intros Cons.IH split: option.split)
qed

lemma stable_fbset_loop_check:
  "stable (\<lambda>s. filter is_checkPrivileges (calls s))
     (fbset_loop env self same remote fbset acc)"
proof (induction fbset arbitrary: acc)
  case Nil
  then show ?case by (cases acc) (simp add: stable_intros)
next
  case (Cons u us)
  show ?case
    by (cases acc) (auto intro!: stable_intros Cons.IH split: option.split)
qed

lemma stable_gafbr_reactor:
  "stable reactor (generateAttendeeFreeBusyResponse env self r op uid ap remote)"
  unfolding generateAttendeeFreeBusyResponse_def Let_def
  by (auto intro!: stable_intros stable_fbset_loop_reactor split: prod.split)

lemma stable_gafbr_check:
  "stable (\<lambda>s. filter is_checkPrivileges (calls s))
     (generateAttendeeFreeBusyResponse env self r op uid ap remote)"
  unfolding generateAttendeeFreeBusyResponse_def Let_def
  by (auto intro!: stable_intros stable_fbset_loop_check split: prod.split)

lemma stable_gfbr_reactor:
  "stable reactor (generateFreeBusyResponse env self r op uid)"
  unfolding generateFreeBusyResponse_def Let_def
  by (auto intro!: stable_intros stable_gafbr_reactor)

lemma stable_gfbr_check:
  "stable (\<lambda>s. filter is_checkPrivileges (calls s))
     (generateFreeBusyResponse env self r op uid)"
  unfolding generateFreeBusyResponse_def Let_def
  by (auto intro!: stable_intros stable_gafbr_check)

lemma stable_gr_reactor:
  "stable reactor (generateResponse env self r ars)"
  unfolding generateResponse_def
  by (auto intro!: stable_intros split: exn.split prod.split)

lemma stable_gr_check:
  "stable (\<lambda>s. filter is_checkPrivileges (calls s)) (generateResponse env self r ars)"
  unfolding generateResponse_def
  by (auto intro!: stable_intros split: exn.split prod.split)

lemma stable_deliver_reactor:
  "stable reactor (deliver env self op uid r ars)"
  unfolding deliver_def
  by (auto intro!: stable_intros stable_gr_reactor stable_gfbr_reactor split: prod.split)

lemma stable_deliver_check:
  "stable (\<lambda>s. filter is_checkPrivileges (calls s)) (deliver env self op uid r ars)"
  unfolding deliver_def
  by (auto intro!: stable_intros stable_gr_check stable_gfbr_check split: prod.split)

lemma stable_body_reactor:
  "stable reactor (recipient_body env self op uid r ars)"
  unfolding recipient_body_def
  by (auto intro!: stable_intros stable_deliver_reactor split: calendar_user.split exn.split)

lemma stable_recipients_loop_reactor:
  "stable reactor (recipients_loop env self op uid rs ars)"
  by (induction rs arbitrary: ars) (auto intro!: stable_intros stable_body_reactor)

subsection \<open>The access check\<close>

text \<open>
  C4. When the organizer is a local calendar user and the check of the schedule privilege on
  the recipient's inbox, for the organizer's principal, raises \<^verbatim>\<open>AccessDeniedError\<close>,
  the turn of the loop for that recipient makes that one call and no other (no implicit
  processing, no storage), appends one 404 (not found) failure entry with request status
  \<^verbatim>\<open>3.8;No authority\<close>, leaves the auto responses as they were, and the loop goes on with
  the remaining recipients. When the organizer is remote, the turn makes no access check.
\<close>

theorem recipient_body_access_check:
  "(organizer (scheduler self) = LocalCalendarUser a p \<and>
    checkPrivileges env (inbox recipient) (principalURL p) (world s)
      = (Inl AccessDeniedError, w1) \<longrightarrow>
      (let s' = s\<lparr>world := w1,
                  calls := calls s @
                    [Call_checkPrivileges (inbox recipient) (principalURL p)],
                  responses := responses s @
                    [\<lparr>re_recipient = cuaddr recipient,
                      re_what = Failure (ErrorResponse responsecode_NOT_FOUND
                                  (caldav_namespace, ''recipient-permissions'')),
                      re_reqstatus = ''3.8;No authority'',
                      re_calendar = None\<rparr>]\<rparr>
       in recipient_body env self organizerProp uid recipient autoresponses s
            = (Inr autoresponses, s') \<and>
          recipients_loop env self organizerProp uid (recipient # rest) autoresponses s
            = recipients_loop env self organizerProp uid rest autoresponses s'))
   \<and> (organizer (scheduler self) = RemoteCalendarUser a \<longrightarrow>
        filter is_checkPrivileges
          (calls (snd (recipient_body env self organizerProp uid recipient autoresponses s)))
        = filter is_checkPrivileges (calls s))"
proof (intro conjI impI)
  assume h: "organizer (scheduler self) = LocalCalendarUser a p \<and>
    checkPrivileges env (inbox recipient) (principalURL p) (world s)
      = (Inl AccessDeniedError, w1)"
  then show "let s' = s\<lparr>world := w1,
                  calls := calls s @
                    [Call_checkPrivileges (inbox recipient) (principalURL p)],
                  responses := responses s @
                    [\<lparr>re_recipient = cuaddr recipient,
                      re_what = Failure (ErrorResponse responsecode_NOT_FOUND
                                  (caldav_namespace, ''recipient-permissions'')),
                      re_reqstatus = ''3.8;No authority'',
                      re_calendar = None\<rparr>]\<rparr>
       in recipient_body env self organizerProp uid recipient autoresponses s
            = (Inr autoresponses, s') \<and>
          recipients_loop env self organizerProp uid (recipient # rest) autoresponses s
            = recipients_loop env self organizerProp uid rest autoresponses s'"
    by (simp add: recipient_body_def m_defs)
next
  assume "organizer (scheduler self) = RemoteCalendarUser a"
  then have "recipient_body env self organizerProp uid recipient autoresponses
               = deliver env self organizerProp uid recipient autoresponses"
    by (simp add: recipient_body_def)
  then show "filter is_checkPrivileges
          (calls (snd (recipient_body env self organizerProp uid recipient autoresponses s)))
        = filter is_checkPrivileges (calls s)"
    using stable_deliver_check [of env self organizerProp uid recipient autoresponses]
    by (simp add: stable_def)
qed

theorem recipient_body_access_check_witness:
  "recipient_body env_access_denied (demo_self False) None ''uid-1'' alice [] s0 =
     (Inr [],
      s0\<lparr>calls := [Call_checkPrivileges (Resource ''/calendars/users/alice/inbox'')
                     ''/principals/users/carol/''],
         responses := [\<lparr>re_recipient = ''mailto:alice@example.com'',
                        re_what = Failure (ErrorResponse 404
                                    (caldav_namespace, ''recipient-permissions'')),
                        re_reqstatus = ''3.8;No authority'',
                        re_calendar = None\<rparr>]\<rparr>)
   \<and> filter is_checkPrivileges
        (calls (snd (recipient_body demo_env remote_self None ''uid-1'' alice [] s0))) = []"
proof -
  have 1: "organizer (scheduler (demo_self False))
             = LocalCalendarUser ''mailto:carol@example.com''
                 (Principal ''/principals/users/carol/'')
           \<and> checkPrivileges env_access_denied (inbox alice)
               (principalURL (Principal ''/principals/users/carol/'')) (world s0)
             = (Inl AccessDeniedError, 0)"
    by (simp add: env_access_denied_def demo_env_def demo_self_def s0_def)
  have 2: "organizer (scheduler remote_self) = RemoteCalendarUser ''mailto:dave@example.org''"
    by (simp add: remote_self_def)
  show ?thesis
    using recipient_body_access_check
            [of "demo_self False" "''mailto:carol@example.com''"
                "Principal ''/principals/users/carol/''" env_access_denied alice s0 0
                None "''uid-1''" "[]" "[bob]"]
          recipient_body_access_check
            [of remote_self "''mailto:dave@example.org''" _ demo_env alice s0 _
                None "''uid-1''" "[]" "[]"]
          1 2
    by (simp add: Let_def alice_fields s0_def responsecode_NOT_FOUND_def)
qed

subsection \<open>Free-busy delivery\<close>

text \<open>
  C2, as the code has it. The \<^verbatim>\<open>try\<close> of \<^verbatim>\<open>generateFreeBusyResponse\<close> encloses the
  aggregation only. When the attendee property has been extracted and the aggregation
  raises any exception, the recipient gets one 403 (forbidden) failure entry with request
  status \<^verbatim>\<open>3.8;No authority\<close>, the result is \<^verbatim>\<open>False\<close> and nothing is raised.
\<close>

theorem generateFreeBusyResponse_aggregation_failure:
  assumes "getAttendeeProperty env (calendar (scheduler self))
             (calendarUserAddresses env (principal recipient)) = Inr attendeeProp"
    and "generateAttendeeFreeBusyResponse env self recipient organizerProp uid attendeeProp
           (isRemoteCalendarUser (organizer (scheduler self))) s = (Inl e, s1)"
  shows "generateFreeBusyResponse env self recipient organizerProp uid s =
     (Inr False,
      s1\<lparr>responses := responses s @
          [\<lparr>re_recipient = cuaddr recipient,
            re_what = Failure (ErrorResponse responsecode_FORBIDDEN
                        (caldav_namespace, ''recipient-permissions'')),
            re_reqstatus = ''3.8;No authority'',
            re_calendar = None\<rparr>]\<rparr>)"
proof -
  have "responses s1 = responses s"
    using stable_gafbr_responses
            [of env self recipient organizerProp uid attendeeProp
                "isRemoteCalendarUser (organizer (scheduler self))"] assms(2)
    by (auto simp: stable_def dest: spec [of _ s])
  with assms show ?thesis
    by (simp add: generateFreeBusyResponse_def m_defs forbidden_failure_def)
qed

theorem generateFreeBusyResponse_aggregation_failure_witness:
  "generateFreeBusyResponse env_collector_failure (demo_self True) alice None ''uid-1'' s0 =
     (Inr False,
      s0\<lparr>calls := [Call_calendarFreeBusyURIs (Principal ''/principals/users/alice/''),
                   Call_hasProperty (Resource ''/calendars/users/alice/inbox''),
                   Call_locateResource ''/missing/'',
                   Call_locateResource ''/calendars/work/'',
                   Call_generateFreeBusyInfo (Resource ''/calendars/work/'')],
         responses := [\<lparr>re_recipient = ''mailto:alice@example.com'',
            re_what = Failure (ErrorResponse 403
                        (caldav_namespace, ''recipient-permissions'')),
            re_reqstatus = ''3.8;No authority'',
            re_calendar = None\<rparr>]\<rparr>)"
proof -
  have 1: "getAttendeeProperty env_collector_failure (calendar (scheduler (demo_self True)))
             (calendarUserAddresses env_collector_failure (principal alice))
           = Inr (Some ''/principals/users/alice/'')"
    by (simp add: env_collector_failure_def demo_env_def alice_def)
  have 2: "generateAttendeeFreeBusyResponse env_collector_failure (demo_self True) alice None
             ''uid-1'' (Some ''/principals/users/alice/'')
             (isRemoteCalendarUser (organizer (scheduler (demo_self True)))) s0
           = (Inl (OtherError ''NumberOfMatchesWithinLimits''),
              s0\<lparr>calls := [Call_calendarFreeBusyURIs (Principal ''/principals/users/alice/''),
                   Call_hasProperty (Resource ''/calendars/users/alice/inbox''),
                   Call_locateResource ''/missing/'',
                   Call_locateResource ''/calendars/work/'',
                   Call_generateFreeBusyInfo (Resource ''/calendars/work/'')]\<rparr>)"
    by (simp add: generateAttendeeFreeBusyResponse_def m_defs env_collector_failure_def
          demo_env_def demo_self_def demo_resolve_def alice_def s0_def)
  show ?thesis
    using generateFreeBusyResponse_aggregation_failure [OF 1 2]
    by (simp add: alice_fields s0_def responsecode_FORBIDDEN_def)
qed

text \<open>
  The claim C2 itself fails: the attendee property is extracted before the \<^verbatim>\<open>try\<close>, so
  an error raised there leaves \<^verbatim>\<open>generateFreeBusyResponse\<close> as an exception, and the
  recipient gets no entry.
\<close>

theorem generateFreeBusyResponse_attendee_counterexample:
  "getAttendeeProperty env_attendee_failure (calendar (scheduler (demo_self True)))
     (calendarUserAddresses env_attendee_failure (principal alice))
     = Inl (OtherError ''ValueError'')
   \<and> generateFreeBusyResponse env_attendee_failure (demo_self True) alice None ''uid-1'' s0
     = (Inl (OtherError ''ValueError''), s0)
   \<and> responses s0 = []"
  by (simp add: generateFreeBusyResponse_def m_defs env_attendee_failure_def demo_env_def
        s0_def)


subsection \<open>The orchestrator\<close>

lemma autoresponses_loop_queue:
  "autoresponses_loop env self ars s =
     (Inr (), s\<lparr>reactor := reactor s @
        map (\<lambda>(p, i, child). HandleRequest p i (duplicate env (calendar (scheduler self))) child)
          ars\<rparr>)"
proof (induction ars arbitrary: s)
  case Nil
  show ?case by (simp add: unit_m_def)
next
  case (Cons a ars)
  obtain p i child where a: "a = (p, i, child)" by (cases a)
  show ?case
    unfolding a by (simp add: bind_m_def callLater_def Cons.IH)
qed

text \<open>
  C9. When the loop over the recipients has ended with the auto responses collected, the
  reactor's queue is still what it was before the loop; then one delayed call is queued for
  each collected candidate, in order, with a duplicate of the scheduling calendar, if the
  iTIP processor can auto-respond to the calendar, and none is queued if it cannot.
\<close>

theorem generateSchedulingResponses_autorespond:
  assumes "recipients_loop env self (getOrganizerProperty env (calendar (scheduler self)))
             (resourceUID env (calendar (scheduler self))) (recipients self) [] s
           = (Inr autoresponses, s1)"
  shows "reactor s1 = reactor s \<and>
     generateSchedulingResponses env self s =
       (Inr (),
        s1\<lparr>reactor := reactor s @
          (if canAutoRespond env (calendar (scheduler self))
           then map (\<lambda>(p, i, child).
                  HandleRequest p i (duplicate env (calendar (scheduler self))) child)
                  autoresponses
           else [])\<rparr>)"
proof -
  have r: "reactor s1 = reactor s"
    using stable_recipients_loop_reactor
            [of env self "getOrganizerProperty env (calendar (scheduler self))"
                "resourceUID env (calendar (scheduler self))" "recipients self" "[]"] assms
    by (auto simp: stable_def dest: spec [of _ s])
  have "generateSchedulingResponses env self s =
       (Inr (),
        s1\<lparr>reactor := reactor s1 @
          (if canAutoRespond env (calendar (scheduler self))
           then map (\<lambda>(p, i, child).
                  HandleRequest p i (duplicate env (calendar (scheduler self))) child)
                  autoresponses
           else [])\<rparr>)"
    using assms
    by (cases autoresponses)
       (simp_all add: generateSchedulingResponses_def bind_m_def unit_m_def
          autoresponses_loop_queue)
  with r show ?thesis by simp
qed

theorem generateSchedulingResponses_autorespond_witness:
  "fst (generateSchedulingResponses demo_env (demo_self False) s0) = Inr ()
   \<and> reactor (snd (generateSchedulingResponses demo_env (demo_self False) s0)) =
       [HandleRequest (Principal ''/principals/users/alice/'')
          (Resource ''/calendars/users/alice/inbox'') (''REQUEST'', ([], [], []))
          (Some (Resource
             ''/calendars/users/alice/inbox/0cc175b9c0f1b6a831c399e269772661.ics'')),
        HandleRequest (Principal ''/principals/users/bob/'')
          (Resource ''/calendars/users/bob/inbox'') (''REQUEST'', ([], [], []))
          (Some (Resource
             ''/calendars/users/bob/inbox/0cc175b9c0f1b6a831c399e269772661.ics''))]"
proof -
  let ?loop = "recipients_loop demo_env (demo_self False)
     (getOrganizerProperty demo_env (calendar (scheduler (demo_self False))))
     (resourceUID demo_env (calendar (scheduler (demo_self False))))
     (recipients (demo_self False)) [] s0"
  let ?ars = "[(Principal ''/principals/users/alice/'',
                Resource ''/calendars/users/alice/inbox'',
                Some (Resource
                  ''/calendars/users/alice/inbox/0cc175b9c0f1b6a831c399e269772661.ics'')),
               (Principal ''/principals/users/bob/'',
                Resource ''/calendars/users/bob/inbox'',
                Some (Resource
                  ''/calendars/users/bob/inbox/0cc175b9c0f1b6a831c399e269772661.ics''))]"
  have "fst ?loop = Inr ?ars"
    by (simp add: recipient_body_def deliver_def generateResponse_def m_defs demo_defs)
  then have 1: "?loop = (Inr ?ars, snd ?loop)"
    by (metis prod.collapse)
  have 2: "canAutoRespond demo_env (calendar (scheduler (demo_self False)))"
    by (simp add: demo_env_def demo_self_def)
  have 3: "duplicate demo_env (calendar (scheduler (demo_self False)))
             = (''REQUEST'', ([], [], []))"
    by (simp add: demo_env_def demo_self_def)
  have 4: "reactor s0 = []"
    by (simp add: s0_def)
  show ?thesis
    using generateSchedulingResponses_autorespond [OF 1] 2 3 4
    by simp
qed

subsection \<open>One entry for each recipient\<close>

lemma generateResponse_one_entry:
  assumes invite: "\<not> freebusy self"
    and locate: "\<forall>w. \<exists>c. fst (locateResource env (new_childURL env self r w) w) = Inr (Some c)"
    and implicit: "\<forall>c u r w. (\<exists>v. fst (doImplicitProcessing env c u r w) = Inr v)
                   \<or> (\<exists>msg. fst (doImplicitProcessing env c u r w)
                              = Inl (ImplicitProcessorException msg))"
    and writes: "\<forall>c prop w. fst (writeDeadProperty env c prop w) = Inr ()"
  shows "\<exists>acc ars' s' e. generateResponse env self r ars s = (Inr (acc, ars'), s')
           \<and> responses s' = responses s @ [e] \<and> re_recipient e = cuaddr r
           \<and> entry_reports (delivery_failure env self op uid r s) e"
proof -
  obtain c w1 where l: "locateResource env (new_childURL env self r (world s)) (world s)
                          = (Inr (Some c), w1)"
    using locate by (metis prod.collapse)
  obtain ri w2 where i: "doImplicitProcessing env (calendar (scheduler self))
                           (originator (scheduler self)) r w1 = (ri, w2)"
    by (metis prod.collapse)
  from implicit i consider (failed) msg where "ri = Inl (ImplicitProcessorException msg)"
    | (returned) processed autoprocessed where "ri = Inr (processed, autoprocessed)"
    by (metis fst_conv prod.collapse)
  then show ?thesis
  proof cases
    case failed
    with invite l i show ?thesis
      by (auto simp: generateResponse_def m_defs delivery_failure_def entry_reports_def
            forbidden_failure_def)
  next
    case returned
    show ?thesis
    proof (cases autoprocessed)
      case True
      with invite returned l i show ?thesis
        by (auto simp: generateResponse_def m_defs delivery_failure_def entry_reports_def)
    next
      case False
      obtain rs w3 where st: "StoreCalendarObjectResource env (Some c)
                                (new_childURL env self r (world s)) (inbox r)
                                (calendar (scheduler self)) w2 = (rs, w3)"
        by (metis prod.collapse)
      show ?thesis
      proof (cases rs)
        case (Inl e)
        with invite False returned l i st show ?thesis
          by (auto simp: generateResponse_def m_defs delivery_failure_def entry_reports_def
                forbidden_failure_def)
      next
        case (Inr u)
        obtain w4 where p1: "writeDeadProperty env c
                               (Originator (cu_cuaddr (originator (scheduler self)))) w3
                             = (Inr (), w4)"
          using writes by (metis prod.collapse)
        obtain w5 where p2: "writeDeadProperty env c (Recipient (cuaddr r)) w4 = (Inr (), w5)"
          using writes by (metis prod.collapse)
        obtain w6 where p3: "writeDeadProperty env c (ScheduleState processed) w5
                             = (Inr (), w6)"
          using writes by (metis prod.collapse)
        from invite Inr False returned l i st p1 p2 p3 show ?thesis
          by (auto simp: generateResponse_def m_defs delivery_failure_def entry_reports_def)
      qed
    qed
  qed
qed

lemma generateFreeBusyResponse_one_entry:
  assumes fb: "freebusy self"
    and attendee: "\<forall>c cuas. \<exists>ap. getAttendeeProperty env c cuas = Inr ap"
  shows "\<exists>acc s' e. generateFreeBusyResponse env self r op uid s = (Inr acc, s')
           \<and> responses s' = responses s @ [e] \<and> re_recipient e = cuaddr r
           \<and> entry_reports (delivery_failure env self op uid r s) e"
proof -
  obtain ap where a: "getAttendeeProperty env (calendar (scheduler self))
                        (calendarUserAddresses env (principal r)) = Inr ap"
    using attendee by blast
  obtain res s1 where g: "generateAttendeeFreeBusyResponse env self r op uid ap
                            (isRemoteCalendarUser (organizer (scheduler self))) s = (res, s1)"
    by (metis prod.collapse)
  have "responses s1 = responses s"
    using stable_gafbr_responses
            [of env self r op uid ap "isRemoteCalendarUser (organizer (scheduler self))"] g
    by (auto simp: stable_def dest: spec [of _ s])
  with fb a g show ?thesis
    by (cases res)
       (auto simp: generateFreeBusyResponse_def m_defs delivery_failure_def entry_reports_def
          forbidden_failure_def)
qed

lemma deliver_one_entry:
  assumes "\<forall>w. \<exists>c. fst (locateResource env (new_childURL env self r w) w) = Inr (Some c)"
    and "\<forall>c u r w. (\<exists>v. fst (doImplicitProcessing env c u r w) = Inr v)
           \<or> (\<exists>msg. fst (doImplicitProcessing env c u r w)
                      = Inl (ImplicitProcessorException msg))"
    and "\<forall>c prop w. fst (writeDeadProperty env c prop w) = Inr ()"
    and "\<forall>c cuas. \<exists>ap. getAttendeeProperty env c cuas = Inr ap"
  shows "\<exists>ars' s' e. deliver env self op uid r ars s = (Inr ars', s')
           \<and> responses s' = responses s @ [e] \<and> re_recipient e = cuaddr r
           \<and> entry_reports (delivery_failure env self op uid r s) e"
proof (cases "freebusy self")
  case True
  from generateFreeBusyResponse_one_entry [OF True assms(4), of r op uid s]
  obtain acc s' e where "generateFreeBusyResponse env self r op uid s = (Inr acc, s')"
    "responses s' = responses s @ [e]" "re_recipient e = cuaddr r"
    "entry_reports (delivery_failure env self op uid r s) e"
    by blast
  with True show ?thesis
    by (simp add: deliver_def m_defs)
next
  case False
  from generateResponse_one_entry [OF False assms(1-3), of ars s op uid]
  obtain acc ars' s' e where "generateResponse env self r ars s = (Inr (acc, ars'), s')"
    "responses s' = responses s @ [e]" "re_recipient e = cuaddr r"
    "entry_reports (delivery_failure env self op uid r s) e"
    by blast
  with False show ?thesis
    by (simp add: deliver_def m_defs)
qed

lemma recipient_body_one_entry:
  assumes access: "\<forall>r p w. fst (checkPrivileges env r p w) = Inr ()
                     \<or> fst (checkPrivileges env r p w) = Inl AccessDeniedError"
    and "\<forall>w. \<exists>c. fst (locateResource env (new_childURL env self r w) w) = Inr (Some c)"
    and "\<forall>c u r w. (\<exists>v. fst (doImplicitProcessing env c u r w) = Inr v)
           \<or> (\<exists>msg. fst (doImplicitProcessing env c u r w)
                      = Inl (ImplicitProcessorException msg))"
    and "\<forall>c prop w. fst (writeDeadProperty env c prop w) = Inr ()"
    and "\<forall>c cuas. \<exists>ap. getAttendeeProperty env c cuas = Inr ap"
  shows "\<exists>ars' s' e. recipient_body env self op uid r ars s = (Inr ars', s')
           \<and> responses s' = responses s @ [e] \<and> re_recipient e = cuaddr r
           \<and> entry_reports (caught_failure env self op uid r s) e"
proof (cases "organizer (scheduler self)")
  case (RemoteCalendarUser a)
  with deliver_one_entry [OF assms(2-5), of op uid ars s] show ?thesis
    by (simp add: recipient_body_def caught_failure_def)
next
  case (LocalCalendarUser a p)
  obtain rc w1 where c: "checkPrivileges env (inbox r) (principalURL p) (world s) = (rc, w1)"
    by (metis prod.collapse)
  with access have "rc = Inr () \<or> rc = Inl AccessDeniedError"
    by (metis fst_conv)
  then show ?thesis
  proof
    assume "rc = Inl AccessDeniedError"
    with LocalCalendarUser c show ?thesis
      by (simp add: recipient_body_def caught_failure_def m_defs entry_reports_def)
  next
    assume ok: "rc = Inr ()"
    let ?s1 = "s\<lparr>world := w1,
                  calls := calls s @ [Call_checkPrivileges (inbox r) (principalURL p)]\<rparr>"
    from deliver_one_entry [OF assms(2-5), of op uid ars ?s1]
    obtain ars' s' e where "deliver env self op uid r ars ?s1 = (Inr ars', s')"
      "responses s' = responses ?s1 @ [e]" "re_recipient e = cuaddr r"
      "entry_reports (delivery_failure env self op uid r ?s1) e"
      by blast
    with LocalCalendarUser c ok show ?thesis
      by (simp add: recipient_body_def caught_failure_def m_defs)
  qed
qed

lemma recipients_loop_entries:
  assumes access: "\<forall>r p w. fst (checkPrivileges env r p w) = Inr ()
                     \<or> fst (checkPrivileges env r p w) = Inl AccessDeniedError"
    and implicit: "\<forall>c u r w. (\<exists>v. fst (doImplicitProcessing env c u r w) = Inr v)
                   \<or> (\<exists>msg. fst (doImplicitProcessing env c u r w)
                              = Inl (ImplicitProcessorException msg))"
    and writes: "\<forall>c prop w. fst (writeDeadProperty env c prop w) = Inr ()"
    and attendee: "\<forall>c cuas. \<exists>ap. getAttendeeProperty env c cuas = Inr ap"
  shows "\<forall>r\<in>set rs. \<forall>w. \<exists>c.
           fst (locateResource env (new_childURL env self r w) w) = Inr (Some c)
         \<Longrightarrow> \<exists>ars' s' es. recipients_loop env self op uid rs ars s = (Inr ars', s')
               \<and> responses s' = responses s @ es \<and> map re_recipient es = map cuaddr rs
               \<and> list_all2 entry_reports (caught_failures env self op uid rs ars s) es"
proof (induction rs arbitrary: ars s)
  case Nil
  show ?case by (simp add: unit_m_def)
next
  case (Cons r rs)
  from Cons.prems
  have here: "\<forall>w. \<exists>c. fst (locateResource env (new_childURL env self r w) w) = Inr (Some c)"
    by simp
  from recipient_body_one_entry [OF access here implicit writes attendee, of op uid ars s]
  obtain ars1 s1 e where b: "recipient_body env self op uid r ars s = (Inr ars1, s1)"
    "responses s1 = responses s @ [e]" "re_recipient e = cuaddr r"
    "entry_reports (caught_failure env self op uid r s) e"
    by blast
  from Cons.prems
  have "\<forall>r\<in>set rs. \<forall>w. \<exists>c.
          fst (locateResource env (new_childURL env self r w) w) = Inr (Some c)"
    by simp
  from Cons.IH [OF this, of ars1 s1]
  obtain ars2 s2 es where l: "recipients_loop env self op uid rs ars1 s1 = (Inr ars2, s2)"
    "responses s2 = responses s1 @ es" "map re_recipient es = map cuaddr rs"
    "list_all2 entry_reports (caught_failures env self op uid rs ars1 s1) es"
    by blast
  have "recipients_loop env self op uid (r # rs) ars s = (Inr ars2, s2)"
    using b(1) l(1) by (simp add: bind_m_def)
  moreover have "responses s2 = responses s @ (e # es)"
    using b(2) l(2) by simp
  moreover have "map re_recipient (e # es) = map cuaddr (r # rs)"
    using b(3) l(3) by simp
  moreover have "list_all2 entry_reports (caught_failures env self op uid (r # rs) ars s)
                   (e # es)"
    using b(1) b(4) l(4) by simp
  ultimately show ?case by blast
qed

text \<open>
  C1, as the code has it. There is no handler at the recipient's boundary: the code catches
  \<^verbatim>\<open>AccessDeniedError\<close> from the access check, \<^verbatim>\<open>ImplicitProcessorException\<close> from the
  implicit processor, and every exception of the storage and of the free-busy aggregation.
  Provided that the access check and the implicit processor raise nothing else, that the
  location of the new item returns a resource and that the writing of its dead properties and
  the extraction of the attendee property return, the orchestrator returns and has appended
  one entry for each recipient, in the order of the recipients; each of the failures that the
  code catches is converted into a failure entry of that recipient (404 with
  \<^verbatim>\<open>3.8;No authority\<close> for a denied access, 403 with the processor's message for its typed
  failure, 403 with \<^verbatim>\<open>3.8;No authority\<close> for a failure of the storage or of the
  aggregation), a turn without such a failure gives a success entry (200,
  \<^verbatim>\<open>2.0;Success\<close>), and no failure of one recipient keeps the later ones from their turn.
  The accessors called outside every \<^verbatim>\<open>try\<close> (\<^verbatim>\<open>getOrganizerProperty\<close>,
  \<^verbatim>\<open>resourceUID\<close>, \<^verbatim>\<open>str\<close>, \<^verbatim>\<open>calendarUserAddresses\<close>, \<^verbatim>\<open>autoSchedule\<close>,
  \<^verbatim>\<open>canAutoRespond\<close>, \<^verbatim>\<open>duplicate\<close>), the library functions (\<^verbatim>\<open>md5\<close>,
  \<^verbatim>\<open>time.time\<close>, \<^verbatim>\<open>joinURL\<close>) and \<^verbatim>\<open>reactor.callLater\<close> are total in this
  model: that they return is a further proviso, met here by construction.
\<close>

theorem generateSchedulingResponses_one_entry_each:
  assumes "\<forall>r p w. fst (checkPrivileges env r p w) = Inr ()
             \<or> fst (checkPrivileges env r p w) = Inl AccessDeniedError"
    and "\<forall>r\<in>set (recipients self). \<forall>w. \<exists>c.
           fst (locateResource env (new_childURL env self r w) w) = Inr (Some c)"
    and "\<forall>c u r w. (\<exists>v. fst (doImplicitProcessing env c u r w) = Inr v)
           \<or> (\<exists>msg. fst (doImplicitProcessing env c u r w)
                      = Inl (ImplicitProcessorException msg))"
    and "\<forall>c prop w. fst (writeDeadProperty env c prop w) = Inr ()"
    and "\<forall>c cuas. \<exists>ap. getAttendeeProperty env c cuas = Inr ap"
  shows "\<exists>s' es. generateSchedulingResponses env self s = (Inr (), s')
           \<and> responses s' = responses s @ es
           \<and> map re_recipient es = map cuaddr (recipients self)
           \<and> list_all2 entry_reports
               (caught_failures env self (getOrganizerProperty env (calendar (scheduler self)))
                  (resourceUID env (calendar (scheduler self))) (recipients self) [] s)
               es"
proof -
  from recipients_loop_entries [OF assms(1) assms(3-5) assms(2)]
  obtain ars s1 es where l:
    "recipients_loop env self (getOrganizerProperty env (calendar (scheduler self)))
       (resourceUID env (calendar (scheduler self))) (recipients self) [] s = (Inr ars, s1)"
    "responses s1 = responses s @ es" "map re_recipient es = map cuaddr (recipients self)"
    "list_all2 entry_reports
       (caught_failures env self (getOrganizerProperty env (calendar (scheduler self)))
          (resourceUID env (calendar (scheduler self))) (recipients self) [] s)
       es"
    by blast
  then show ?thesis
    by (simp add: generateSchedulingResponses_def bind_m_def autoresponses_loop_queue)
qed

theorem generateSchedulingResponses_one_entry_each_witness:
  "\<exists>s' e1 e2. generateSchedulingResponses env_store_failure (demo_self False) s0 = (Inr (), s')
     \<and> responses s' = [e1, e2]
     \<and> re_recipient e1 = ''mailto:alice@example.com''
     \<and> re_what e1 = Failure (ErrorResponse 403 (caldav_namespace, ''recipient-permissions''))
     \<and> re_reqstatus e1 = ''3.8;No authority''
     \<and> re_recipient e2 = ''mailto:bob@example.com''
     \<and> re_what e2 = Code 200
     \<and> re_reqstatus e2 = ''2.0;Success''"
proof -
  have 1: "\<forall>r p w. fst (checkPrivileges env_store_failure r p w) = Inr ()
             \<or> fst (checkPrivileges env_store_failure r p w) = Inl AccessDeniedError"
    by (simp add: env_store_failure_def demo_env_def)
  have 2: "\<forall>r\<in>set (recipients (demo_self False)). \<forall>w. \<exists>c.
             fst (locateResource env_store_failure
                    (new_childURL env_store_failure (demo_self False) r w) w) = Inr (Some c)"
    by (simp add: env_store_failure_def demo_defs)
  have 3: "\<forall>c u r w. (\<exists>v. fst (doImplicitProcessing env_store_failure c u r w) = Inr v)
           \<or> (\<exists>msg. fst (doImplicitProcessing env_store_failure c u r w)
                      = Inl (ImplicitProcessorException msg))"
    by (auto simp: env_store_failure_def demo_env_def)
  have 4: "\<forall>c prop w. fst (writeDeadProperty env_store_failure c prop w) = Inr ()"
    by (simp add: env_store_failure_def demo_env_def)
  have 5: "\<forall>c cuas. \<exists>ap. getAttendeeProperty env_store_failure c cuas = Inr ap"
    by (simp add: env_store_failure_def demo_env_def)
  have 6: "responses s0 = []"
    by (simp add: s0_def)
  have 7: "map cuaddr (recipients (demo_self False))
             = [''mailto:alice@example.com'', ''mailto:bob@example.com'']"
    by (simp add: demo_self_def alice_def bob_def)
  have 8: "caught_failures env_store_failure (demo_self False)
             (getOrganizerProperty env_store_failure (calendar (scheduler (demo_self False))))
             (resourceUID env_store_failure (calendar (scheduler (demo_self False))))
             (recipients (demo_self False)) [] s0
           = [Some (403, ''3.8;No authority''), None]"
    by (simp add: caught_failure_def delivery_failure_def recipient_body_def deliver_def
          generateResponse_def m_defs env_store_failure_def demo_defs
          responsecode_FORBIDDEN_def)
  from generateSchedulingResponses_one_entry_each [OF 1 2 3 4 5, of s0]
  obtain s' es where r:
    "generateSchedulingResponses env_store_failure (demo_self False) s0 = (Inr (), s')"
    "responses s' = es"
    "map re_recipient es = [''mailto:alice@example.com'', ''mailto:bob@example.com'']"
    "list_all2 entry_reports [Some (403, ''3.8;No authority''), None] es"
    unfolding 6 7 8 by auto
  from r(4) obtain e1 e2 where es: "es = [e1, e2]"
    "entry_reports (Some (403, ''3.8;No authority'')) e1" "entry_reports None e2"
    by (auto simp: list_all2_Cons1)
  with r(1-3) show ?thesis
    by (auto simp: entry_reports_def responsecode_OK_def)
qed

text \<open>
  The claim C1 itself fails: when the location of the new inbox item raises for the first of
  two recipients, the exception leaves the orchestrator and no entry at all is appended.
\<close>

theorem generateSchedulingResponses_counterexample:
  "recipients (demo_self False) = [alice, bob]
   \<and> generateSchedulingResponses env_locate_failure (demo_self False) s0 =
       (Inl (OtherError ''IOError''),
        s0\<lparr>calls := [Call_checkPrivileges (Resource ''/calendars/users/alice/inbox'')
                       ''/principals/users/carol/'',
                     Call_locateResource
                       ''/calendars/users/alice/inbox/0cc175b9c0f1b6a831c399e269772661.ics''],
           responses := []\<rparr>)"
  by (simp add: generateSchedulingResponses_def recipient_body_def deliver_def
        generateResponse_def m_defs env_locate_failure_def demo_defs)


subsection \<open>Free-busy aggregation\<close>

lemma collected_append: "collected (xs @ ys) = collected xs @ collected ys"
  by (induction xs rule: collected.induct) auto



lemma fbset_loop_skip:
  assumes "locateResource env u (world s) = (Inr r, w')" and "\<not> usable env r"
  shows "fbset_loop env self same remote (u # us) (fb, mt) s =
           fbset_loop env self same remote us (fb, mt)
             (s\<lparr>world := w', calls := calls s @ [Call_locateResource u]\<rparr>)"
  using assms by (auto simp: bind_m_def call_def usable_def split: option.splits)





lemma fbset_loop_unusable:
  "\<forall>url\<in>set fbset. \<forall>w. \<exists>r w'. locateResource env url w = (Inr r, w') \<and> \<not> usable env r \<Longrightarrow>
   \<exists>s'. fbset_loop env self same remote fbset (fb, mt) s = (Inr (fb, mt), s')
     \<and> collected (calls s') = collected (calls s)"
proof (induction fbset arbitrary: s)
  case Nil
  show ?case by (simp add: unit_m_def)
next
  case (Cons u us)
  from Cons.prems obtain r w' where
    l: "locateResource env u (world s) = (Inr r, w')" "\<not> usable env r"
    by (meson list.set_intros(1))
  let ?s1 = "s\<lparr>world := w', calls := calls s @ [Call_locateResource u]\<rparr>"
  have "\<forall>url\<in>set us. \<forall>w. \<exists>r w'. locateResource env url w = (Inr r, w') \<and> \<not> usable env r"
    using Cons.prems by simp
  from Cons.IH [OF this, of ?s1]
  obtain s' where "fbset_loop env self same remote us (fb, mt) ?s1 = (Inr (fb, mt), s')"
    "collected (calls s') = collected (calls ?s1)"
    by blast
  then show ?case
    using fbset_loop_skip [OF l] by (simp add: collected_append)
qed

text \<open>
  C10, as the code has it. The attendee property is extracted before the \<^verbatim>\<open>try\<close>, and
  the reply is built inside it. When the attendee property has been extracted, the inbox has
  no calendar-availability property, every location of the free-busy set resolves to nothing
  or to a resource that is missing or is not a calendar collection, and the reply builder
  returns a reply for three empty lists of periods, then \<^verbatim>\<open>generateFreeBusyResponse\<close>
  returns \<^verbatim>\<open>True\<close> and appends one success entry (200, \<^verbatim>\<open>2.0;Success\<close>) carrying that
  reply, built with method \<^verbatim>\<open>REPLY\<close>; the collector is not called.
\<close>

theorem generateFreeBusyResponse_no_sources:
  assumes attendee: "getAttendeeProperty env (calendar (scheduler self))
                       (calendarUserAddresses env (principal recipient)) = Inr attendeeProp"
    and fetch: "calendarFreeBusyURIs env (principal recipient) (world s) = (Inr fbset, w1)"
    and noprop: "hasProperty env (inbox recipient) w1 = (Inr False, w2)"
    and missing: "\<forall>url\<in>set fbset. \<forall>w. \<exists>r w'.
                    locateResource env url w = (Inr r, w') \<and> \<not> usable env r"
    and build: "buildFreeBusyResult env ([], [], []) (timeRange (scheduler self)) organizerProp
                  attendeeProp uid ''REPLY'' = Inr reply"
  shows "\<exists>s'. generateFreeBusyResponse env self recipient organizerProp uid s = (Inr True, s')
           \<and> responses s' = responses s @
               [\<lparr>re_recipient = cuaddr recipient,
                 re_what = Code responsecode_OK,
                 re_reqstatus = ''2.0;Success'',
                 re_calendar = Some reply\<rparr>]
           \<and> collected (calls s') = collected (calls s)"
proof -
  let ?same = "case organizer (scheduler self) of
                 LocalCalendarUser a p \<Rightarrow> principalURL p = principalURL (principal recipient)
               | RemoteCalendarUser a \<Rightarrow> False"
  let ?remote = "isRemoteCalendarUser (organizer (scheduler self))"
  let ?s2 = "s\<lparr>world := w2,
               calls := calls s @ [Call_calendarFreeBusyURIs (principal recipient),
                                   Call_hasProperty (inbox recipient)]\<rparr>"
  from fbset_loop_unusable [OF missing, of self ?same ?remote "([], [], [])" 0 ?s2]
  obtain s1 where loop:
    "fbset_loop env self ?same ?remote fbset (([], [], []), 0) ?s2
       = (Inr (([], [], []), 0), s1)"
    "collected (calls s1) = collected (calls ?s2)"
    by blast
  have g: "generateAttendeeFreeBusyResponse env self recipient organizerProp uid attendeeProp
             ?remote s = (Inr reply, s1)"
    using fetch noprop loop(1) build
    by (simp add: generateAttendeeFreeBusyResponse_def m_defs)
  have "responses s1 = responses s"
    using stable_gafbr_responses
            [of env self recipient organizerProp uid attendeeProp ?remote] g
    by (auto simp: stable_def dest: spec [of _ s])
  moreover have "collected (calls s1) = collected (calls s)"
    using loop(2) by (simp add: collected_append)
  ultimately show ?thesis
    using attendee g by (simp add: generateFreeBusyResponse_def m_defs)
qed


theorem generateFreeBusyResponse_no_sources_witness:
  "\<exists>s'. generateFreeBusyResponse env_no_sources (demo_self True) alice None ''uid-1'' s0
          = (Inr True, s')
     \<and> responses s' =
         [\<lparr>re_recipient = ''mailto:alice@example.com'',
           re_what = Code 200,
           re_reqstatus = ''2.0;Success'',
           re_calendar = Some (''REPLY'', ([], [], []))\<rparr>]
     \<and> collected (calls s') = []"
proof -
  have 1: "getAttendeeProperty env_no_sources (calendar (scheduler (demo_self True)))
             (calendarUserAddresses env_no_sources (principal alice))
           = Inr (Some ''/principals/users/alice/'')"
    by (simp add: env_no_sources_def demo_env_def alice_def)
  have 2: "calendarFreeBusyURIs env_no_sources (principal alice) (world s0)
             = (Inr [''/missing/'', ''/calendars/users/alice/notes/''], 0)"
    by (simp add: env_no_sources_def demo_env_def s0_def)
  have 3: "hasProperty env_no_sources (inbox alice) 0 = (Inr False, 0)"
    by (simp add: env_no_sources_def demo_env_def)
  have 4: "\<forall>url\<in>set [''/missing/'', ''/calendars/users/alice/notes/'']. \<forall>w. \<exists>r w'.
             locateResource env_no_sources url w = (Inr r, w') \<and> \<not> usable env_no_sources r"
    by (simp add: env_no_sources_def demo_env_def demo_resolve_def usable_def)
  have 5: "buildFreeBusyResult env_no_sources ([], [], [])
             (timeRange (scheduler (demo_self True))) None (Some ''/principals/users/alice/'')
             ''uid-1'' ''REPLY'' = Inr (''REPLY'', ([], [], []))"
    by (simp add: env_no_sources_def demo_env_def)
  show ?thesis
    using generateFreeBusyResponse_no_sources [OF 1 2 3 4 5]
    by (simp add: alice_fields s0_def responsecode_OK_def)
qed

text \<open>
  The claim C10 itself fails. The free-busy set holds a missing location and a resource that
  is not a calendar collection, and the inbox has no availability property. When the
  extraction of the attendee property raises, the exception leaves
  \<^verbatim>\<open>generateFreeBusyResponse\<close> and the recipient gets no entry; when the reply builder
  raises, the recipient gets a 403 failure entry with \<^verbatim>\<open>3.8;No authority\<close>.
\<close>

theorem generateFreeBusyResponse_no_sources_counterexample:
  "calendarFreeBusyURIs env_no_sources_attendee_failure (principal alice) 0
     = (Inr [''/missing/'', ''/calendars/users/alice/notes/''], 0)
   \<and> hasProperty env_no_sources_attendee_failure (inbox alice) 0 = (Inr False, 0)
   \<and> locateResource env_no_sources_attendee_failure ''/missing/'' 0 = (Inr None, 0)
   \<and> locateResource env_no_sources_attendee_failure ''/calendars/users/alice/notes/'' 0
     = (Inr (Some (Resource ''/calendars/users/alice/notes/'')), 0)
   \<and> \<not> usable env_no_sources_attendee_failure
         (Some (Resource ''/calendars/users/alice/notes/''))
   \<and> generateFreeBusyResponse env_no_sources_attendee_failure (demo_self True) alice None
       ''uid-1'' s0
     = (Inl (OtherError ''ValueError''), s0)
   \<and> responses s0 = []
   \<and> generateFreeBusyResponse env_no_sources_build_failure (demo_self True) alice None
       ''uid-1'' s0
     = (Inr False,
        s0\<lparr>calls := [Call_calendarFreeBusyURIs (Principal ''/principals/users/alice/''),
                     Call_hasProperty (Resource ''/calendars/users/alice/inbox''),
                     Call_locateResource ''/missing/'',
                     Call_locateResource ''/calendars/users/alice/notes/''],
           responses := [\<lparr>re_recipient = ''mailto:alice@example.com'',
                          re_what = Failure (ErrorResponse 403
                                      (caldav_namespace, ''recipient-permissions'')),
                          re_reqstatus = ''3.8;No authority'',
                          re_calendar = None\<rparr>]\<rparr>)"
  by (simp add: generateFreeBusyResponse_def generateAttendeeFreeBusyResponse_def m_defs
        env_no_sources_attendee_failure_def env_no_sources_build_failure_def
        env_no_sources_def demo_defs usable_def forbidden_failure_def
        responsecode_FORBIDDEN_def)


end
